theory Spec2Isabelle
  imports Main "HOL-Library.Word"
begin

unbundle bit_operations_syntax

section \<open>Values of the program\<close>

text \<open>
  The terminal server bridges a websocket to a remote shell. Byte slices are lists of
  8-bit words, Go \<open>error\<close> values are identified with their message, and a call either
  returns, blocks for ever (a receive on a channel nobody feeds) or panics.
\<close>

type_synonym byte = "8 word"
type_synonym bytes = "byte list"
type_synonym error = string

datatype 'a outcome = Returned 'a | Blocked | Panicked string

text \<open>\<open>remotecommand.TerminalSize\<close>: two unsigned 16-bit fields.\<close>

record TerminalSize =
  Width :: "16 word"
  Height :: "16 word"

subsection \<open>The websocket connection\<close>

text \<open>
  \<open>*websocket.Conn\<close> belongs to gorilla/websocket, not to this repository. A connection
  is an object in a store, reached through its address; the three methods the repository
  calls are modelled on the store's state of that object: whether \<open>Close\<close> has been
  called, a transport fault (the peer is gone), the frames written so far and the frames
  the client has still to send. The error of a closed connection stands for the network
  error the library returns, whose text also names the operation and the addresses;
  nothing below depends on the text.
\<close>

record conn_state =
  conn_closed :: bool
  conn_fault :: "error option"
  frames_out :: "(nat \<times> bytes) list"
  frames_in :: "bytes list"

definition TextMessage :: nat where
  "TextMessage = 1"

definition closed_conn_error :: error where
  "closed_conn_error = ''use of closed network connection''"

definition nil_deref :: string where
  "nil_deref = ''invalid memory address or nil pointer dereference''"

definition WriteMessage :: "conn_state \<Rightarrow> nat \<Rightarrow> bytes \<Rightarrow> error option \<times> conn_state" where
  "WriteMessage c messageType data =
     (if conn_closed c then (Some closed_conn_error, c)
      else case conn_fault c of
             Some e \<Rightarrow> (Some e, c)
           | None \<Rightarrow> (None, c\<lparr>frames_out := frames_out c @ [(messageType, data)]\<rparr>))"

definition ReadMessage :: "conn_state \<Rightarrow> (bytes \<times> error option) outcome \<times> conn_state" where
  "ReadMessage c =
     (if conn_closed c then (Returned ([], Some closed_conn_error), c)
      else case frames_in c of
             m # ms \<Rightarrow> (Returned (m, None), c\<lparr>frames_in := ms\<rparr>)
           | [] \<Rightarrow> (case conn_fault c of
                      Some e \<Rightarrow> (Returned ([], Some e), c)
                    | None \<Rightarrow> (Blocked, c)))"

definition CloseConn :: "conn_state \<Rightarrow> error option \<times> conn_state" where
  "CloseConn c =
     (if conn_closed c then (Some closed_conn_error, c)
      else (None, c\<lparr>conn_closed := True\<rparr>))"

subsection \<open>Sessions, the registry and the global state\<close>

text \<open>
  \<open>TerminalSession\<close> is a struct of a string, a pointer and four channels; pointers and
  channels are addresses (\<open>None\<close> is \<open>nil\<close>, which is what the zero value of the struct
  holds). The map \<open>terminalSessions\<close> stores the structs by value.
\<close>

record TerminalSession =
  id :: string
  sockConn :: "nat option"
  sizeChan :: "nat option"
  bound :: "nat option"
  receiver :: "nat option"
  sender :: "nat option"

definition zero_session :: TerminalSession where
  "zero_session = \<lparr>id = [], sockConn = None, sizeChan = None, bound = None,
                    receiver = None, sender = None\<rparr>"

text \<open>What the program does that an observer can see, in the order it happens.\<close>

datatype event =
    EvLog string
  | EvGoReader string
  | EvExecPod "string list"
  | EvStreaming "string list"
  | EvClose "nat option"

text \<open>
  An unbuffered channel holds the values offered by the senders parked on it, oldest
  first; a receive takes the oldest offer and blocks when there is none.
\<close>

record world =
  terminalSessions :: "string \<rightharpoonup> TerminalSession"
  conns :: "nat \<Rightarrow> conn_state"
  byte_chans :: "nat \<Rightarrow> bytes list"
  size_chans :: "nat \<Rightarrow> TerminalSize list"
  next_addr :: nat
  events :: "event list"

definition lookup_session :: "world \<Rightarrow> string \<Rightarrow> TerminalSession" where
  "lookup_session w sessionId =
     (case terminalSessions w sessionId of None \<Rightarrow> zero_session | Some t \<Rightarrow> t)"

definition emit :: "event \<Rightarrow> world \<Rightarrow> world" where
  "emit e w = w\<lparr>events := events w @ [e]\<rparr>"

section \<open>The methods of TerminalSession\<close>

text \<open>\<open>Next\<close>: a \<open>select\<close> with the single case of a receive on \<open>sizeChan\<close>.\<close>

definition Next :: "TerminalSession \<Rightarrow> world \<Rightarrow> TerminalSize option outcome \<times> world" where
  "Next t w =
     (case sizeChan t of
        None \<Rightarrow> (Blocked, w)
      | Some ch \<Rightarrow>
          (case size_chans w ch of
             [] \<Rightarrow> (Blocked, w)
           | sz # rest \<Rightarrow>
               (Returned (Some sz), w\<lparr>size_chans := (size_chans w)(ch := rest)\<rparr>)))"

text \<open>Go's builtin \<open>copy(dst, src)\<close>: the number of bytes copied and the new \<open>dst\<close>.\<close>

definition copy_bytes :: "bytes \<Rightarrow> bytes \<Rightarrow> nat \<times> bytes" where
  "copy_bytes dst src =
     (let n = min (length dst) (length src) in (n, take n src @ drop n dst))"

text \<open>
  \<open>Read\<close>: receive one chunk from \<open>receiver\<close>, copy it into \<open>p\<close>, return the count and a
  nil error. The result carries the buffer as the caller sees it afterwards.
\<close>

definition Read :: "TerminalSession \<Rightarrow> bytes \<Rightarrow> world \<Rightarrow>
    (nat \<times> error option \<times> bytes) outcome \<times> world" where
  "Read t p w =
     (case receiver t of
        None \<Rightarrow> (Blocked, w)
      | Some ch \<Rightarrow>
          (case byte_chans w ch of
             [] \<Rightarrow> (Blocked, w)
           | m # rest \<Rightarrow>
               (let (n, p') = copy_bytes p m
                in (Returned (n, None, p'), w\<lparr>byte_chans := (byte_chans w)(ch := rest)\<rparr>))))"

text \<open>\<open>Write\<close>: one text frame; \<open>(0, err)\<close> when the socket write fails.\<close>

definition Write :: "TerminalSession \<Rightarrow> bytes \<Rightarrow> world \<Rightarrow>
    (nat \<times> error option) outcome \<times> world" where
  "Write t p w =
     (case sockConn t of
        None \<Rightarrow> (Panicked nil_deref, w)
      | Some a \<Rightarrow>
          (case WriteMessage (conns w a) TextMessage p of
             (Some err, c) \<Rightarrow> (Returned (0, Some err), w\<lparr>conns := (conns w)(a := c)\<rparr>)
           | (None, c) \<Rightarrow> (Returned (length p, None), w\<lparr>conns := (conns w)(a := c)\<rparr>)))"

definition Toast :: "TerminalSession \<Rightarrow> string \<Rightarrow> world \<Rightarrow> error option outcome \<times> world" where
  "Toast t p w =
     (case sockConn t of
        None \<Rightarrow> (Panicked nil_deref, w)
      | Some a \<Rightarrow>
          (case WriteMessage (conns w a) TextMessage (map (\<lambda>ch. of_nat (of_char ch)) p) of
             (Some err, c) \<Rightarrow> (Returned (Some err), w\<lparr>conns := (conns w)(a := c)\<rparr>)
           | (None, c) \<Rightarrow> (Returned None, w\<lparr>conns := (conns w)(a := c)\<rparr>)))"

text \<open>\<open>Close\<close>: closes the socket and hands back its error.\<close>

definition Close :: "TerminalSession \<Rightarrow> world \<Rightarrow> error option outcome \<times> world" where
  "Close t w =
     (let w1 = emit (EvClose (sockConn t)) w in
      case sockConn t of
        None \<Rightarrow> (Panicked nil_deref, w1)
      | Some a \<Rightarrow>
          (case CloseConn (conns w1 a) of
             (err, c) \<Rightarrow> (Returned err, w1\<lparr>conns := (conns w1)(a := c)\<rparr>)))"

section \<open>The remote-exec collaborator\<close>

text \<open>
  \<open>execPod\<close> builds the request, creates the executor and calls its \<open>Stream\<close>; the
  Kubernetes client is outside the repository, so what it does for a given target and
  command is a parameter: whether \<open>loadConfig\<close> or \<open>getClientSet\<close> panic, the error of
  \<open>NewSPDYExecutor\<close>, and how the \<open>Stream\<close> call ends, together with whether the remote
  command was attached (streaming began) before it ended.
\<close>

datatype stream_run =
    StreamReturns bool "error option"
  | StreamHangs bool

record exec_env =
  config_panic :: "string option"
  executor_error :: "error option"
  stream :: stream_run

type_synonym cluster = "string \<Rightarrow> string \<Rightarrow> string \<Rightarrow> string list \<Rightarrow> exec_env"

definition execPod :: "cluster \<Rightarrow> string \<Rightarrow> string \<Rightarrow> string \<Rightarrow> string list \<Rightarrow>
    TerminalSession \<Rightarrow> world \<Rightarrow> error option outcome \<times> world" where
  "execPod env container pod namespace cmd ptyHandler w =
     (let w1 = emit (EvExecPod cmd) w;
          k = env container pod namespace cmd
      in case config_panic k of
           Some msg \<Rightarrow> (Panicked msg, w1)
         | None \<Rightarrow>
             (case executor_error k of
                Some err \<Rightarrow> (Returned (Some err), w1)
              | None \<Rightarrow>
                  (case stream k of
                     StreamReturns attached err \<Rightarrow>
                       (Returned err, if attached then emit (EvStreaming cmd) w1 else w1)
                   | StreamHangs attached \<Rightarrow>
                       (Blocked, if attached then emit (EvStreaming cmd) w1 else w1))))"

section \<open>Session identifiers and session creation\<close>

text \<open>\<open>hex.Encode\<close>: two lowercase digits for each byte, high nibble first.\<close>

definition hextable :: string where
  "hextable = ''0123456789abcdef''"

definition hex_byte :: "byte \<Rightarrow> string" where
  "hex_byte v = [hextable ! unat (drop_bit 4 v), hextable ! unat (v AND 0x0f)]"

definition hex_Encode :: "bytes \<Rightarrow> string" where
  "hex_Encode src = concat (map hex_byte src)"

text \<open>
  The random source is a parameter: asked for \<open>n\<close> bytes it answers with an error or
  with the bytes, which overwrite the zeroed 16-byte buffer.
\<close>

definition GenTerminalSessionId :: "(nat \<Rightarrow> error + bytes) \<Rightarrow> string \<times> error option" where
  "GenTerminalSessionId rand_Read =
     (case rand_Read 16 of
        Inl err \<Rightarrow> ([], Some err)
      | Inr r \<Rightarrow> (hex_Encode (snd (copy_bytes (replicate 16 0) r)), None))"

text \<open>
  \<open>CreateSession\<close>: the upgrade answers with an error (and a nil connection) or with a
  new connection, which is stored at a fresh address. The four channels are made in the
  order of the struct literal.
\<close>

definition CreateSession :: "(error + conn_state) \<Rightarrow> (nat \<Rightarrow> error + bytes) \<Rightarrow> world \<Rightarrow>
    (string \<times> error option) \<times> world" where
  "CreateSession upgrade rand_Read w =
     (let (conn, w1) =
            (case upgrade of
               Inl err \<Rightarrow> (None, emit (EvLog (''upgrade:'' @ err)) w)
             | Inr c \<Rightarrow> (Some (next_addr w),
                         w\<lparr>conns := (conns w)(next_addr w := c),
                           next_addr := Suc (next_addr w)\<rparr>));
          sessionId = fst (GenTerminalSessionId rand_Read);
          a = next_addr w1;
          terminalSession = \<lparr>id = sessionId, sockConn = conn, sizeChan = Some (a + 1),
                             bound = Some a, receiver = Some (a + 2), sender = Some (a + 3)\<rparr>;
          w2 = w1\<lparr>byte_chans := (byte_chans w1)(a + 2 := [], a + 3 := []),
                  size_chans := (size_chans w1)(a + 1 := []),
                  next_addr := a + 4\<rparr>
      in ((sessionId, None),
          w2\<lparr>terminalSessions := (terminalSessions w2)(sessionId \<mapsto> terminalSession)\<rparr>))"

section \<open>The socket reader loop\<close>

text \<open>
  \<open>readFromWebTerminal\<close> runs in its own goroutine; one step of it is one call that can
  block: \<open>ReadMessage\<close>, or the send on the unbuffered \<open>receiver\<close> channel, which parks
  the goroutine until a receiver has taken the message.
\<close>

datatype reader_pc = AtReadMessage | AtSend bytes | Parked nat | Exited

definition readFromWebTerminal_step :: "string \<Rightarrow> reader_pc \<Rightarrow> world \<Rightarrow>
    reader_pc outcome \<times> world" where
  "readFromWebTerminal_step sessionId pc w =
     (case pc of
        AtReadMessage \<Rightarrow>
          (case sockConn (lookup_session w sessionId) of
             None \<Rightarrow> (Panicked nil_deref, w)
           | Some a \<Rightarrow>
               (case ReadMessage (conns w a) of
                  (Returned (message, Some err), c) \<Rightarrow>
                    (Returned Exited,
                     emit (EvLog ''readFromWebTerminal ReadMessage was closed'')
                       (emit (EvLog (''error: '' @ err)) (w\<lparr>conns := (conns w)(a := c)\<rparr>)))
                | (Returned (message, None), c) \<Rightarrow>
                    (Returned (AtSend message), w\<lparr>conns := (conns w)(a := c)\<rparr>)
                | (Blocked, c) \<Rightarrow> (Blocked, w)
                | (Panicked msg, c) \<Rightarrow> (Panicked msg, w)))
      | AtSend message \<Rightarrow>
          (case receiver (lookup_session w sessionId) of
             None \<Rightarrow> (Blocked, w)
           | Some ch \<Rightarrow>
               (Returned (Parked ch),
                w\<lparr>byte_chans := (byte_chans w)(ch := byte_chans w ch @ [message])\<rparr>))
      | Parked ch \<Rightarrow>
          (if byte_chans w ch = [] then (Returned AtReadMessage, w) else (Blocked, w))
      | Exited \<Rightarrow> (Returned Exited, w))"

section \<open>The session orchestrator\<close>

text \<open>
  The loop over the shells: \<open>err\<close> is the variable declared before the loop, the \<open>break\<close>
  is the branch of a nil error. A panic or a call that never returns ends the loop.
\<close>

fun try_shells :: "cluster \<Rightarrow> string \<Rightarrow> string \<Rightarrow> string \<Rightarrow> string \<Rightarrow> string list \<Rightarrow>
    error option \<Rightarrow> world \<Rightarrow> error option outcome \<times> world" where
  "try_shells env container pod namespace sessionId [] err w = (Returned err, w)"
| "try_shells env container pod namespace sessionId (shell # shells) err w =
     (case execPod env container pod namespace [shell] (lookup_session w sessionId) w of
        (Returned None, w1) \<Rightarrow> (Returned None, w1)
      | (Returned (Some e), w1) \<Rightarrow>
          try_shells env container pod namespace sessionId shells (Some e)
            (emit (EvLog (''ExecTerminal execPod err '' @ e)) w1)
      | (Blocked, w1) \<Rightarrow> (Blocked, w1)
      | (Panicked msg, w1) \<Rightarrow> (Panicked msg, w1))"

text \<open>
  The deferred call: its receiver was evaluated at the \<open>defer\<close> statement; it runs when
  the function returns or panics, and a panic of its own replaces the pending one.
\<close>

definition run_deferred_Close :: "TerminalSession \<Rightarrow> unit outcome \<Rightarrow> world \<Rightarrow>
    unit outcome \<times> world" where
  "run_deferred_Close t r w =
     (case Close t w of
        (Returned err, w1) \<Rightarrow> (r, w1)
      | (Blocked, w1) \<Rightarrow> (Blocked, w1)
      | (Panicked msg, w1) \<Rightarrow> (Panicked msg, w1))"

definition shells :: "string list" where
  "shells = [''bash'', ''sh'']"

definition ExecTerminal :: "cluster \<Rightarrow> string \<Rightarrow> string \<Rightarrow> string \<Rightarrow> string \<Rightarrow> world \<Rightarrow>
    unit outcome \<times> world" where
  "ExecTerminal env container pod namespace sessionId w =
     (let deferred = lookup_session w sessionId;
          w1 = emit (EvGoReader sessionId) w
      in case try_shells env container pod namespace sessionId shells None w1 of
           (Returned (Some err), w2) \<Rightarrow>
             run_deferred_Close deferred (Returned ())
               (emit (EvLog (''ExecTerminal err '' @ err)) w2)
         | (Returned None, w2) \<Rightarrow>
             run_deferred_Close deferred (Returned ())
               (emit (EvLog ''terminal was closed'') w2)
         | (Panicked msg, w2) \<Rightarrow> run_deferred_Close deferred (Panicked msg) w2
         | (Blocked, w2) \<Rightarrow> (Blocked, w2))"

section \<open>The reader loop and the collaborator's reads as one system\<close>

text \<open>
  The reader goroutine and the goroutine in which the collaborator calls \<open>Read\<close> meet
  only on the \<open>receiver\<close> channel. A schedule says which of the two moves next: a step
  of the reader loop, or a call of \<open>Read\<close> with a buffer of the given length. A move
  that cannot be made yet (the call would block) leaves the system as it is. The system
  records what each completed \<open>Read\<close> handed to the collaborator, \<open>p[:n]\<close>.
\<close>

datatype action = ReaderStep | ReadCall nat

record bridge =
  reader :: reader_pc
  state :: world
  delivered :: "bytes list"

definition bridge_step :: "string \<Rightarrow> action \<Rightarrow> bridge \<Rightarrow> bridge" where
  "bridge_step sessionId a b =
     (case a of
        ReaderStep \<Rightarrow>
          (case readFromWebTerminal_step sessionId (reader b) (state b) of
             (Returned pc, w) \<Rightarrow> b\<lparr>reader := pc, state := w\<rparr>
           | (Blocked, w) \<Rightarrow> b
           | (Panicked msg, w) \<Rightarrow> b)
      | ReadCall n \<Rightarrow>
          (case Read (lookup_session (state b) sessionId) (replicate n 0) (state b) of
             (Returned (k, err, p), w) \<Rightarrow> b\<lparr>state := w, delivered := delivered b @ [take k p]\<rparr>
           | (Blocked, w) \<Rightarrow> b
           | (Panicked msg, w) \<Rightarrow> b))"

definition run_bridge :: "string \<Rightarrow> action list \<Rightarrow> bridge \<Rightarrow> bridge" where
  "run_bridge sessionId acts b = fold (bridge_step sessionId) acts b"

section \<open>Observations on the event trace\<close>

text \<open>
  The events a call added to the trace, the number of \<open>Close\<close> calls among them, and
  the commands \<open>execPod\<close> was called with, in order.
\<close>

fun is_Close :: "event \<Rightarrow> bool" where
  "is_Close (EvClose a) = True"
| "is_Close e = False"

definition close_calls :: "event list \<Rightarrow> nat" where
  "close_calls es = length (filter is_Close es)"

fun exec_cmds :: "event list \<Rightarrow> string list list" where
  "exec_cmds [] = []"
| "exec_cmds (EvExecPod cmd # es) = cmd # exec_cmds es"
| "exec_cmds (e # es) = exec_cmds es"

definition new_events :: "world \<Rightarrow> world \<Rightarrow> event list" where
  "new_events w w' = drop (length (events w)) (events w')"

definition same_store :: "world \<Rightarrow> world \<Rightarrow> bool" where
  "same_store w w' \<longleftrightarrow> terminalSessions w' = terminalSessions w \<and> conns w' = conns w
     \<and> byte_chans w' = byte_chans w \<and> size_chans w' = size_chans w \<and> next_addr w' = next_addr w"

text \<open>
  How one \<open>execPod\<close> call can end, read off the collaborator's behaviour: the shell
  never started (the executor could not be created, or the stream call returned an
  error without having attached the command); the shell started; the stream call
  returned an error after streaming had begun.
\<close>

definition fails_to_start :: "exec_env \<Rightarrow> error \<Rightarrow> bool" where
  "fails_to_start k e \<longleftrightarrow> config_panic k = None \<and>
     (executor_error k = Some e \<or>
      (executor_error k = None \<and> stream k = StreamReturns False (Some e)))"

definition starts :: "exec_env \<Rightarrow> bool" where
  "starts k \<longleftrightarrow> config_panic k = None \<and> executor_error k = None
     \<and> (case stream k of StreamReturns attached r \<Rightarrow> attached | StreamHangs attached \<Rightarrow> attached)"

definition streaming_error :: "exec_env \<Rightarrow> error \<Rightarrow> bool" where
  "streaming_error k e \<longleftrightarrow> config_panic k = None \<and> executor_error k = None
     \<and> stream k = StreamReturns True (Some e)"

text \<open>
  The events of one \<open>execPod\<close> call after the call itself, and the events with which
  \<open>ExecTerminal\<close> ends once its loop has ended with the given result.
\<close>

definition attach_events :: "exec_env \<Rightarrow> string list \<Rightarrow> event list" where
  "attach_events k cmd = (if starts k then [EvStreaming cmd] else [])"

definition exit_events :: "error option outcome \<Rightarrow> nat option \<Rightarrow> event list" where
  "exit_events r conn =
     (case r of
        Returned (Some err) \<Rightarrow> [EvLog (''ExecTerminal err '' @ err), EvClose conn]
      | Returned None \<Rightarrow> [EvLog ''terminal was closed'', EvClose conn]
      | Panicked msg \<Rightarrow> [EvClose conn]
      | Blocked \<Rightarrow> [])"

section \<open>Example inputs\<close>

text \<open>
  An empty server; a fresh connection; a random source that answers with the byte
  \<open>0xAB\<close> sixteen times, and one that fails; the session created from them, and the
  same session after \<open>Close\<close>.
\<close>

definition w0 :: world where
  "w0 = \<lparr>terminalSessions = Map.empty,
          conns = (\<lambda>a. \<lparr>conn_closed = True, conn_fault = None, frames_out = [], frames_in = []\<rparr>),
          byte_chans = (\<lambda>a. []), size_chans = (\<lambda>a. []), next_addr = 0, events = []\<rparr>"

definition conn0 :: conn_state where
  "conn0 = \<lparr>conn_closed = False, conn_fault = None, frames_out = [], frames_in = []\<rparr>"

definition rand_ab :: "nat \<Rightarrow> error + bytes" where
  "rand_ab n = Inr (replicate n 0xAB)"

definition rand_fail :: "nat \<Rightarrow> error + bytes" where
  "rand_fail n = Inl ''entropy source unavailable''"

definition sid_ab :: string where
  "sid_ab = ''abababababababababababababababab''"

definition ts_ab :: TerminalSession where
  "ts_ab = \<lparr>id = sid_ab, sockConn = Some 0, sizeChan = Some 2, bound = Some 1,
            receiver = Some 3, sender = Some 4\<rparr>"

definition w_created :: world where
  "w_created = snd (CreateSession (Inr conn0) rand_ab w0)"

definition w_closed :: world where
  "w_closed = snd (Close ts_ab w_created)"

definition io_EOF :: error where
  "io_EOF = ''EOF''"

text \<open>
  Clusters: the shell runs and exits with status 0; every stream ends with a transport
  error after it began; \<open>bash\<close> runs and exits with status 1; the container has no
  shell at all; the container has \<open>sh\<close> only.
\<close>

definition env_exit :: cluster where
  "env_exit container pod namespace cmd =
     \<lparr>config_panic = None, executor_error = None, stream = StreamReturns True None\<rparr>"

definition env_reset :: cluster where
  "env_reset container pod namespace cmd =
     \<lparr>config_panic = None, executor_error = None,
      stream = StreamReturns True (Some closed_conn_error)\<rparr>"

definition env_exit1 :: cluster where
  "env_exit1 container pod namespace cmd =
     (if cmd = [''bash'']
      then \<lparr>config_panic = None, executor_error = None,
            stream = StreamReturns True (Some ''command terminated with exit code 1'')\<rparr>
      else \<lparr>config_panic = None, executor_error = None, stream = StreamReturns True None\<rparr>)"

definition env_no_shell :: cluster where
  "env_no_shell container pod namespace cmd =
     \<lparr>config_panic = None, executor_error = None,
      stream = StreamReturns False (Some ''executable file not found'')\<rparr>"

definition env_only_sh :: cluster where
  "env_only_sh container pod namespace cmd =
     (if cmd = [''bash'']
      then \<lparr>config_panic = None, executor_error = None,
            stream = StreamReturns False (Some ''executable file not found'')\<rparr>
      else \<lparr>config_panic = None, executor_error = None, stream = StreamReturns True None\<rparr>)"

text \<open>
  A client that sends the frames \<open>abc\<close> and \<open>d\<close>, and a collaborator that reads twice
  with a buffer of two bytes, each time after the reader loop has offered a frame.
\<close>

definition conn_abc :: conn_state where
  "conn_abc = \<lparr>conn_closed = False, conn_fault = None, frames_out = [],
               frames_in = [[0x61, 0x62, 0x63], [0x64]]\<rparr>"

definition w_abc :: world where
  "w_abc = snd (CreateSession (Inr conn_abc) rand_ab w0)"

definition paste_schedule :: "action list" where
  "paste_schedule = [ReaderStep, ReaderStep, ReadCall 2, ReaderStep,
                     ReaderStep, ReaderStep, ReadCall 2, ReaderStep]"

definition bridge_abc :: bridge where
  "bridge_abc = run_bridge sid_ab paste_schedule
                  \<lparr>reader = AtReadMessage, state = w_abc, delivered = []\<rparr>"

text \<open>
  The invariant of the bridge: the frames received from the socket and not yet handed
  to the collaborator are those parked on the channel followed by the one the reader
  is about to send, and what has been handed over is, read by read, a prefix of the
  frame it came from, the whole frame when the frame is no longer than \<open>n0\<close>.
\<close>

definition inflight :: "nat \<Rightarrow> bridge \<Rightarrow> bytes list" where
  "inflight ch b =
     byte_chans (state b) ch @ (case reader b of AtSend m \<Rightarrow> [m] | _ \<Rightarrow> [])"

definition is_prefix :: "bytes \<Rightarrow> bytes \<Rightarrow> bool" where
  "is_prefix d m \<longleftrightarrow> d = take (length d) m"

definition delivers :: "nat \<Rightarrow> bytes \<Rightarrow> bytes \<Rightarrow> bool" where
  "delivers n0 d m \<longleftrightarrow> is_prefix d m \<and> (length m \<le> n0 \<longrightarrow> d = m)"

definition fifo_inv :: "string \<Rightarrow> TerminalSession \<Rightarrow> nat \<Rightarrow> nat \<Rightarrow> nat \<Rightarrow> bytes list \<Rightarrow>
    bridge \<Rightarrow> bool" where
  "fifo_inv sessionId t a ch n0 frames b \<longleftrightarrow>
     lookup_session (state b) sessionId = t
     \<and> length (delivered b) \<le> length frames
     \<and> list_all2 (delivers n0) (delivered b) (take (length (delivered b)) frames)
     \<and> drop (length (delivered b)) frames = inflight ch b @ frames_in (conns (state b) a)"

section \<open>ExecTerminal only appends events and closes the connection\<close>

lemma exec_cmds_append: "exec_cmds (xs @ ys) = exec_cmds xs @ exec_cmds ys"
  by (induction xs rule: exec_cmds.induct) simp_all

lemma lookup_session_events [simp]:
  "lookup_session (w\<lparr>events := es\<rparr>) sid = lookup_session w sid"
  by (simp add: lookup_session_def)

lemma lookup_session_emit [simp]: "lookup_session (emit e w) sid = lookup_session w sid"
  by (simp add: emit_def)

lemma same_store_refl [simp]: "same_store w w"
  by (simp add: same_store_def)

lemma same_store_emit [simp]: "same_store w (emit e w') = same_store w w'"
  by (simp add: same_store_def emit_def)

lemma execPod_store: "same_store w (snd (execPod env c p n cmd t w))"
  by (simp add: execPod_def Let_def split: option.splits stream_run.splits)

lemma execPod_events:
  "\<exists>new. events (snd (execPod env c p n cmd t w)) = events w @ EvExecPod cmd # new
      \<and> close_calls new = 0 \<and> exec_cmds new = [] \<and> set new \<subseteq> {EvStreaming cmd}"
  by (simp add: execPod_def Let_def emit_def close_calls_def split: option.splits stream_run.splits)

lemma try_shells_store: "same_store w (snd (try_shells env c p n sid ss err w))"
proof (induction ss arbitrary: err w)
  case Nil
  show ?case by simp
next
  case (Cons s ss)
  obtain r w1 where ex: "execPod env c p n [s] (lookup_session w sid) w = (r, w1)"
    by (cases "execPod env c p n [s] (lookup_session w sid) w")
  with execPod_store [of w env c p n "[s]" "lookup_session w sid"]
  have st: "same_store w w1" by simp
  have "same_store w1 (snd (try_shells env c p n sid ss (Some e) (emit ev w1)))" for e ev
    using Cons.IH [where w = "emit ev w1" and err = "Some e"] by (simp add: same_store_def emit_def)
  with st have "same_store w (snd (try_shells env c p n sid ss (Some e) (emit ev w1)))" for e ev
    by (simp add: same_store_def)
  with ex st show ?case
    by (simp split: outcome.splits option.splits)
qed

lemma try_shells_events:
  "\<exists>new. events (snd (try_shells env c p n sid ss err w)) = events w @ new
      \<and> close_calls new = 0"
proof (induction ss arbitrary: err w)
  case Nil
  show ?case by (simp add: close_calls_def)
next
  case (Cons s ss)
  obtain r w1 where ex: "execPod env c p n [s] (lookup_session w sid) w = (r, w1)"
    by (cases "execPod env c p n [s] (lookup_session w sid) w")
  from execPod_events [of env c p n "[s]" "lookup_session w sid" w] ex
  obtain new1 where w1: "events w1 = events w @ EvExecPod [s] # new1"
    and c1: "close_calls new1 = 0" by auto
  have base: "\<exists>new. events w1 = events w @ new \<and> close_calls new = 0"
    using w1 c1 by (auto simp: close_calls_def)
  have step: "\<exists>new. events (snd (try_shells env c p n sid ss (Some e)
                  (emit (EvLog l) w1))) = events w @ new \<and> close_calls new = 0" for e l
  proof -
    from Cons.IH [of "Some e" "emit (EvLog l) w1"]
    obtain new2 where "events (snd (try_shells env c p n sid ss (Some e) (emit (EvLog l) w1)))
        = events (emit (EvLog l) w1) @ new2" and "close_calls new2 = 0" by auto
    with w1 c1 show ?thesis
      by (auto simp: emit_def close_calls_def)
  qed
  from ex base step show ?case
    by (simp split: outcome.splits option.splits)
qed

lemma Close_store:
  "terminalSessions (snd (Close t w)) = terminalSessions w"
  "byte_chans (snd (Close t w)) = byte_chans w"
  "size_chans (snd (Close t w)) = size_chans w"
  "next_addr (snd (Close t w)) = next_addr w"
  "events (snd (Close t w)) = events w @ [EvClose (sockConn t)]"
  "fst (Close t w) \<noteq> Blocked"
  by (simp_all add: Close_def Let_def emit_def CloseConn_def split: option.splits prod.splits)

lemma Close_conn:
  "sockConn t = Some a \<Longrightarrow> conn_closed (conns (snd (Close t w)) a)"
  "sockConn t \<noteq> Some b \<Longrightarrow> conns (snd (Close t w)) b = conns w b"
  by (auto simp add: Close_def Let_def emit_def CloseConn_def split: option.splits prod.splits)

lemma run_deferred_Close_facts:
  "terminalSessions (snd (run_deferred_Close t r w)) = terminalSessions w"
  "events (snd (run_deferred_Close t r w)) = events w @ [EvClose (sockConn t)]"
  "sockConn t = Some a \<Longrightarrow> conn_closed (conns (snd (run_deferred_Close t r w)) a)"
  "sockConn t \<noteq> Some b \<Longrightarrow> conns (snd (run_deferred_Close t r w)) b = conns w b"
  using Close_store [of t w] Close_conn [of t _ w]
  by (auto simp: run_deferred_Close_def split: prod.splits outcome.splits)

lemma ExecTerminal_registry:
  "terminalSessions (snd (ExecTerminal env c p n sid w)) = terminalSessions w"
proof -
  let ?w1 = "emit (EvGoReader sid) w"
  obtain r w2 where t: "try_shells env c p n sid shells None ?w1 = (r, w2)"
    by (cases "try_shells env c p n sid shells None ?w1")
  from try_shells_store [of ?w1 env c p n sid shells None] t
  have "terminalSessions w2 = terminalSessions w"
    by (simp add: same_store_def emit_def)
  with t show ?thesis
    by (simp add: ExecTerminal_def Let_def run_deferred_Close_facts emit_def
        split: outcome.splits option.splits)
qed

lemma ExecTerminal_events:
  "\<exists>new. close_calls new = 0 \<and>
     events (snd (ExecTerminal env c p n sid w)) =
       (if fst (ExecTerminal env c p n sid w) = Blocked then events w @ new
        else events w @ new @ [EvClose (sockConn (lookup_session w sid))])"
proof -
  let ?w1 = "emit (EvGoReader sid) w"
  obtain r w2 where t: "try_shells env c p n sid shells None ?w1 = (r, w2)"
    by (cases "try_shells env c p n sid shells None ?w1")
  from try_shells_events [of env c p n sid shells None ?w1] t
  obtain new where ev: "events w2 = events w @ EvGoReader sid # new" and cc: "close_calls new = 0"
    by (auto simp: emit_def)
  have nb: "fst (run_deferred_Close t' r' w') \<noteq> Blocked" if "r' \<noteq> Blocked" for t' r' w'
    using that Close_store(6) [of t' w']
    by (auto simp: run_deferred_Close_def split: prod.splits outcome.splits)
  show ?thesis
  proof (cases r)
    case Blocked
    with t ev cc show ?thesis
      by (auto simp: ExecTerminal_def Let_def close_calls_def intro!: exI [of _ "EvGoReader sid # new"])
  next
    case (Panicked m)
    with t ev cc nb [of "Panicked m"] show ?thesis
      by (auto simp: ExecTerminal_def Let_def close_calls_def run_deferred_Close_facts
          intro!: exI [of _ "EvGoReader sid # new"])
  next
    case (Returned eo)
    show ?thesis
    proof (cases eo)
      case None
      with Returned t ev cc nb [of "Returned ()"] show ?thesis
        by (auto simp: ExecTerminal_def Let_def close_calls_def run_deferred_Close_facts emit_def
            intro!: exI [of _ "EvGoReader sid # new @ [EvLog ''terminal was closed'']"])
    next
      case (Some e)
      with Returned t ev cc nb [of "Returned ()"] show ?thesis
        by (auto simp: ExecTerminal_def Let_def close_calls_def run_deferred_Close_facts emit_def
            intro!: exI [of _ "EvGoReader sid # new @ [EvLog (''ExecTerminal err '' @ e)]"])
    qed
  qed
qed

lemma execPod_fst_env:
  "fst (execPod env c p n cmd t w) = fst (execPod env c p n cmd t' w')"
  by (simp add: execPod_def Let_def split: option.splits stream_run.splits)

lemma ExecTerminal_blocked_iff:
  "fst (ExecTerminal env c p n sid w) = Blocked \<longleftrightarrow>
     fst (try_shells env c p n sid shells None (emit (EvGoReader sid) w)) = Blocked"
proof -
  obtain r w2 where t: "try_shells env c p n sid shells None (emit (EvGoReader sid) w) = (r, w2)"
    by (cases "try_shells env c p n sid shells None (emit (EvGoReader sid) w)")
  have nb: "fst (run_deferred_Close t' r' w') \<noteq> Blocked" if "r' \<noteq> Blocked" for t' r' w'
    using that Close_store(6) [of t' w']
    by (auto simp: run_deferred_Close_def split: prod.splits outcome.splits)
  from t nb [of "Returned ()"] nb [of "Panicked m" for m] show ?thesis
    by (auto simp: ExecTerminal_def Let_def split: outcome.splits option.splits)
qed

lemma try_shells_returns:
  assumes "\<forall>s \<in> set ss. fst (execPod env c p n [s] t' w') \<noteq> Blocked"
  shows "fst (try_shells env c p n sid ss err w) \<noteq> Blocked"
  using assms
proof (induction ss arbitrary: err w)
  case Nil
  show ?case by simp
next
  case (Cons s ss)
  obtain r w1 where ex: "execPod env c p n [s] (lookup_session w sid) w = (r, w1)"
    by (cases "execPod env c p n [s] (lookup_session w sid) w")
  from Cons.prems execPod_fst_env [of env c p n "[s]" "lookup_session w sid" w t' w'] ex
  have r: "r \<noteq> Blocked" by simp
  have rest: "fst (try_shells env c p n sid ss e v) \<noteq> Blocked" for e v
    using Cons.IH [of e v] Cons.prems by simp
  from ex r rest show ?case
    by (simp split: outcome.splits option.splits)
qed

lemma ExecTerminal_returns:
  assumes "fst (execPod env c p n [''bash''] t' w') \<noteq> Blocked"
    and "fst (execPod env c p n [''sh''] t' w') \<noteq> Blocked"
  shows "fst (ExecTerminal env c p n sid w) \<noteq> Blocked"
  unfolding ExecTerminal_blocked_iff
  using assms by (intro try_shells_returns [where t' = t' and w' = w']) (simp add: shells_def)

text \<open>
  C2: when the \<open>execPod\<close> calls for \<open>bash\<close> and \<open>sh\<close> return or panic, which covers a
  shell that starts and streams to a normal end, a stream that ends with an error, and
  every candidate failing to start, \<open>ExecTerminal\<close> exits and \<open>Close\<close> has been invoked
  exactly once, as the last thing the function does. More generally \<open>Close\<close> is invoked
  exactly once, last, whenever \<open>ExecTerminal\<close> exits, and not at all while a stream
  call has not returned.
\<close>

theorem ExecTerminal_Close_exactly_once:
  "(fst (execPod env container pod namespace [''bash''] t' w') \<noteq> Blocked
      \<and> fst (execPod env container pod namespace [''sh''] t' w') \<noteq> Blocked \<longrightarrow>
      fst (ExecTerminal env container pod namespace sessionId w) \<noteq> Blocked
      \<and> close_calls (new_events w (snd (ExecTerminal env container pod namespace sessionId w))) = 1
      \<and> last (events (snd (ExecTerminal env container pod namespace sessionId w)))
          = EvClose (sockConn (lookup_session w sessionId)))
   \<and> (fst (ExecTerminal env container pod namespace sessionId w) \<noteq> Blocked \<longrightarrow>
      close_calls (new_events w (snd (ExecTerminal env container pod namespace sessionId w))) = 1
      \<and> last (events (snd (ExecTerminal env container pod namespace sessionId w)))
          = EvClose (sockConn (lookup_session w sessionId)))
   \<and> (fst (ExecTerminal env container pod namespace sessionId w) = Blocked \<longrightarrow>
      close_calls (new_events w (snd (ExecTerminal env container pod namespace sessionId w))) = 0)
   \<and> take (length (events w)) (events (snd (ExecTerminal env container pod namespace sessionId w)))
        = events w"
  using ExecTerminal_events [of env container pod namespace sessionId w]
    ExecTerminal_returns [where env = env and c = container and p = pod and n = namespace
      and t' = t' and w' = w' and sid = sessionId and w = w]
  by (auto simp: new_events_def close_calls_def)

lemma gen_ab: "GenTerminalSessionId rand_ab = (sid_ab, None)"
  by code_simp

lemma created_session:
  "terminalSessions w_created sid_ab = Some \<lparr>id = sid_ab, sockConn = Some 0, sizeChan = Some 2,
      bound = Some 1, receiver = Some 3, sender = Some 4\<rparr>"
  by (simp add: w_created_def CreateSession_def gen_ab w0_def Let_def)

lemma exit_run_returns: "fst (ExecTerminal env_exit ''app'' ''web-1'' ''default'' sid_ab w_created) = Returned ()"
  by (simp add: ExecTerminal_def shells_def execPod_def env_exit_def Let_def lookup_session_def
      created_session emit_def run_deferred_Close_def Close_def CloseConn_def
      w_created_def CreateSession_def gen_ab w0_def conn0_def)

lemma created_lookup: "lookup_session w_created sid_ab = ts_ab"
  by (simp add: lookup_session_def created_session ts_ab_def)

lemma example_calls_return:
  "fst (execPod env_exit ''app'' ''web-1'' ''default'' [s] ts_ab w_created) \<noteq> Blocked"
  "fst (execPod env_reset ''app'' ''web-1'' ''default'' [s] ts_ab w_created) \<noteq> Blocked"
  "fst (execPod env_no_shell ''app'' ''web-1'' ''default'' [s] ts_ab w_created) \<noteq> Blocked"
  by (simp_all add: execPod_def env_exit_def env_reset_def env_no_shell_def Let_def)

theorem ExecTerminal_Close_exactly_once_witness:
  "fst (execPod env_exit ''app'' ''web-1'' ''default'' [''bash''] ts_ab w_created) \<noteq> Blocked
   \<and> fst (execPod env_exit ''app'' ''web-1'' ''default'' [''sh''] ts_ab w_created) \<noteq> Blocked
   \<and> fst (ExecTerminal env_exit ''app'' ''web-1'' ''default'' sid_ab w_created) \<noteq> Blocked
   \<and> close_calls (new_events w_created
        (snd (ExecTerminal env_exit ''app'' ''web-1'' ''default'' sid_ab w_created))) = 1
   \<and> last (events (snd (ExecTerminal env_exit ''app'' ''web-1'' ''default'' sid_ab w_created)))
        = EvClose (Some 0)
   \<and> fst (execPod env_reset ''app'' ''web-1'' ''default'' [''bash''] ts_ab w_created) \<noteq> Blocked
   \<and> fst (execPod env_reset ''app'' ''web-1'' ''default'' [''sh''] ts_ab w_created) \<noteq> Blocked
   \<and> fst (ExecTerminal env_reset ''app'' ''web-1'' ''default'' sid_ab w_created) \<noteq> Blocked
   \<and> close_calls (new_events w_created
        (snd (ExecTerminal env_reset ''app'' ''web-1'' ''default'' sid_ab w_created))) = 1
   \<and> last (events (snd (ExecTerminal env_reset ''app'' ''web-1'' ''default'' sid_ab w_created)))
        = EvClose (Some 0)
   \<and> fst (execPod env_no_shell ''app'' ''web-1'' ''default'' [''bash''] ts_ab w_created) \<noteq> Blocked
   \<and> fst (execPod env_no_shell ''app'' ''web-1'' ''default'' [''sh''] ts_ab w_created) \<noteq> Blocked
   \<and> fst (ExecTerminal env_no_shell ''app'' ''web-1'' ''default'' sid_ab w_created) \<noteq> Blocked
   \<and> close_calls (new_events w_created
        (snd (ExecTerminal env_no_shell ''app'' ''web-1'' ''default'' sid_ab w_created))) = 1
   \<and> last (events (snd (ExecTerminal env_no_shell ''app'' ''web-1'' ''default'' sid_ab w_created)))
        = EvClose (Some 0)"
proof -
  have s: "sockConn (lookup_session w_created sid_ab) = Some 0"
    by (simp add: lookup_session_def created_session)
  from s example_calls_return
    ExecTerminal_Close_exactly_once [where env = env_exit and container = "''app''"
      and pod = "''web-1''" and namespace = "''default''" and t' = ts_ab and w' = w_created
      and sessionId = sid_ab and w = w_created]
    ExecTerminal_Close_exactly_once [where env = env_reset and container = "''app''"
      and pod = "''web-1''" and namespace = "''default''" and t' = ts_ab and w' = w_created
      and sessionId = sid_ab and w = w_created]
    ExecTerminal_Close_exactly_once [where env = env_no_shell and container = "''app''"
      and pod = "''web-1''" and namespace = "''default''" and t' = ts_ab and w' = w_created
      and sessionId = sid_ab and w = w_created]
  show ?thesis by simp
qed

section \<open>Session creation, teardown and the session's methods\<close>

lemma ExecTerminal_conn_closed:
  assumes "fst (ExecTerminal env c p n sid w) \<noteq> Blocked"
    and "sockConn (lookup_session w sid) = Some a"
  shows "conn_closed (conns (snd (ExecTerminal env c p n sid w)) a)"
  using assms
  by (auto simp: ExecTerminal_def Let_def run_deferred_Close_facts
      split: prod.splits outcome.splits option.splits)

text \<open>
  C1, as stated, fails: a session is created, the shell exits at once with no frame
  exchanged, \<open>ExecTerminal\<close> returns and the connection is closed, and the registry
  still holds the session's entry. No function of the program deletes from
  \<open>terminalSessions\<close>.
\<close>

theorem ExecTerminal_keeps_registry_entry_counterexample:
  "fst (ExecTerminal env_exit ''app'' ''web-1'' ''default'' sid_ab w_created) = Returned ()
   \<and> frames_out (conns (snd (ExecTerminal env_exit ''app'' ''web-1'' ''default'' sid_ab w_created)) 0) = []
   \<and> conn_closed (conns (snd (ExecTerminal env_exit ''app'' ''web-1'' ''default'' sid_ab w_created)) 0)
   \<and> terminalSessions (snd (ExecTerminal env_exit ''app'' ''web-1'' ''default'' sid_ab w_created)) sid_ab
        \<noteq> None"
  by (simp add: ExecTerminal_def shells_def execPod_def env_exit_def Let_def lookup_session_def
      created_session emit_def run_deferred_Close_def Close_def CloseConn_def
      w_created_def CreateSession_def gen_ab w0_def conn0_def)

text \<open>
  C1, amended: when \<open>ExecTerminal\<close> exits, the connection of the session it was started
  for is closed, and the registry is exactly what it was before the call.
\<close>

theorem ExecTerminal_closes_keeps_registry:
  "terminalSessions (snd (ExecTerminal env container pod namespace sessionId w)) = terminalSessions w
   \<and> (fst (ExecTerminal env container pod namespace sessionId w) \<noteq> Blocked
        \<and> sockConn (lookup_session w sessionId) = Some a
      \<longrightarrow> conn_closed (conns (snd (ExecTerminal env container pod namespace sessionId w)) a))"
  using ExecTerminal_registry [of env container pod namespace sessionId w]
    ExecTerminal_conn_closed [of env container pod namespace sessionId w a]
  by simp

theorem ExecTerminal_closes_keeps_registry_witness:
  "fst (ExecTerminal env_exit ''app'' ''web-1'' ''default'' sid_ab w_created) \<noteq> Blocked
   \<and> sockConn (lookup_session w_created sid_ab) = Some 0
   \<and> conn_closed (conns (snd (ExecTerminal env_exit ''app'' ''web-1'' ''default'' sid_ab w_created)) 0)
   \<and> terminalSessions (snd (ExecTerminal env_exit ''app'' ''web-1'' ''default'' sid_ab w_created))
       = terminalSessions w_created"
proof -
  have h: "fst (ExecTerminal env_exit ''app'' ''web-1'' ''default'' sid_ab w_created) \<noteq> Blocked"
    by (simp add: exit_run_returns)
  have s: "sockConn (lookup_session w_created sid_ab) = Some 0"
    by (simp add: lookup_session_def created_session)
  from h s ExecTerminal_closes_keeps_registry
    [of env_exit "''app''" "''web-1''" "''default''" sid_ab w_created 0]
  show ?thesis by simp
qed

lemma gen_fail: "GenTerminalSessionId rand_fail = ([], Some ''entropy source unavailable'')"
  by (simp add: GenTerminalSessionId_def rand_fail_def)

text \<open>
  C3, evaluated where it fails: with a failed upgrade \<open>CreateSession\<close> logs the error,
  registers a session whose connection is nil and returns a nil error; with a failed
  random source it registers a session under the empty identifier and returns a nil
  error.
\<close>

theorem CreateSession_failures_not_reported:
  "fst (CreateSession (Inl ''bad handshake'') rand_ab w0) = (sid_ab, None)
   \<and> map_option sockConn
        (terminalSessions (snd (CreateSession (Inl ''bad handshake'') rand_ab w0)) sid_ab) = Some None
   \<and> fst (CreateSession (Inr conn0) rand_fail w0) = ([], None)
   \<and> map_option sockConn
        (terminalSessions (snd (CreateSession (Inr conn0) rand_fail w0)) []) = Some (Some 0)"
  by (simp add: CreateSession_def gen_ab gen_fail Let_def w0_def emit_def)

text \<open>
  C10: when the generated identifier is already a key of the registry, \<open>CreateSession\<close>
  returns no error and the entry of that key becomes the session this call built: the
  same identifier, the connection the upgrade returned, stored at a fresh address (nil
  when the upgrade failed), and four fresh, empty channels. Every other entry is kept,
  and the connection of the replaced session is left as it was (still open if it was
  open); nothing but a failed upgrade is logged.
\<close>

theorem CreateSession_overwrites_colliding_id:
  assumes "terminalSessions w sessionId = Some old"
    and "fst (GenTerminalSessionId rand_Read) = sessionId"
    and "sockConn old = Some a"
    and "a < next_addr w"
  shows "fst (CreateSession upgrade rand_Read w) = (sessionId, None)
    \<and> terminalSessions (snd (CreateSession upgrade rand_Read w)) sessionId \<noteq> Some old
    \<and> (\<exists>new. terminalSessions (snd (CreateSession upgrade rand_Read w)) sessionId = Some new
           \<and> sockConn new \<noteq> Some a)
    \<and> (\<forall>k. k \<noteq> sessionId \<longrightarrow>
           terminalSessions (snd (CreateSession upgrade rand_Read w)) k = terminalSessions w k)
    \<and> conns (snd (CreateSession upgrade rand_Read w)) a = conns w a
    \<and> (\<forall>c. upgrade = Inr c \<longrightarrow>
          terminalSessions (snd (CreateSession upgrade rand_Read w)) sessionId =
            Some \<lparr>id = sessionId, sockConn = Some (next_addr w),
                  sizeChan = Some (next_addr w + 2), bound = Some (next_addr w + 1),
                  receiver = Some (next_addr w + 3), sender = Some (next_addr w + 4)\<rparr>
          \<and> conns (snd (CreateSession upgrade rand_Read w)) (next_addr w) = c
          \<and> byte_chans (snd (CreateSession upgrade rand_Read w)) (next_addr w + 3) = []
          \<and> byte_chans (snd (CreateSession upgrade rand_Read w)) (next_addr w + 4) = []
          \<and> size_chans (snd (CreateSession upgrade rand_Read w)) (next_addr w + 2) = []
          \<and> next_addr (snd (CreateSession upgrade rand_Read w)) = next_addr w + 5
          \<and> events (snd (CreateSession upgrade rand_Read w)) = events w)
    \<and> (\<forall>e. upgrade = Inl e \<longrightarrow>
          terminalSessions (snd (CreateSession upgrade rand_Read w)) sessionId =
            Some \<lparr>id = sessionId, sockConn = None,
                  sizeChan = Some (next_addr w + 1), bound = Some (next_addr w),
                  receiver = Some (next_addr w + 2), sender = Some (next_addr w + 3)\<rparr>
          \<and> conns (snd (CreateSession upgrade rand_Read w)) = conns w
          \<and> events (snd (CreateSession upgrade rand_Read w)) = events w @ [EvLog (''upgrade:'' @ e)])"
  using assms
  by (auto simp: CreateSession_def Let_def emit_def split: sum.splits prod.splits)

lemma created_conn: "conns w_created 0 = conn0" "next_addr w_created = 5"
  by (simp_all add: w_created_def CreateSession_def gen_ab w0_def Let_def)

theorem CreateSession_overwrites_colliding_id_witness:
  "terminalSessions w_created sid_ab = Some \<lparr>id = sid_ab, sockConn = Some 0, sizeChan = Some 2,
      bound = Some 1, receiver = Some 3, sender = Some 4\<rparr>
   \<and> fst (GenTerminalSessionId rand_ab) = sid_ab
   \<and> (0::nat) < next_addr w_created
   \<and> fst (CreateSession (Inr conn0) rand_ab w_created) = (sid_ab, None)
   \<and> terminalSessions (snd (CreateSession (Inr conn0) rand_ab w_created)) sid_ab
        = Some \<lparr>id = sid_ab, sockConn = Some 5, sizeChan = Some 7,
      bound = Some 6, receiver = Some 8, sender = Some 9\<rparr>
   \<and> conns (snd (CreateSession (Inr conn0) rand_ab w_created)) 5 = conn0
   \<and> conns (snd (CreateSession (Inr conn0) rand_ab w_created)) 0 = conns w_created 0
   \<and> \<not> conn_closed (conns (snd (CreateSession (Inr conn0) rand_ab w_created)) 0)"
proof -
  have g: "fst (GenTerminalSessionId rand_ab) = sid_ab" by (simp add: gen_ab)
  have n: "(0::nat) < next_addr w_created" by (simp add: created_conn)
  have o: "sockConn \<lparr>id = sid_ab, sockConn = Some 0, sizeChan = Some 2,
      bound = Some 1, receiver = Some 3, sender = Some 4\<rparr> = Some 0" by simp
  have c: "\<not> conn_closed (conns w_created 0)" by (simp add: created_conn conn0_def)
  from CreateSession_overwrites_colliding_id [OF created_session g o n, of "Inr conn0"] g n c
  show ?thesis using created_session by (simp add: created_conn)
qed

lemma closed_world:
  "conn_closed (conns w_closed 0)" "byte_chans w_closed 3 = []" "size_chans w_closed 2 = []"
  by (simp_all add: w_closed_def Close_def Let_def emit_def CloseConn_def ts_ab_def
      w_created_def CreateSession_def gen_ab w0_def conn0_def)

text \<open>
  C7, as stated, fails: after \<open>Close\<close> a \<open>Read\<close> with no chunk waiting blocks, and one
  with a chunk waiting returns the bytes with a nil error; neither is end-of-stream.
\<close>

theorem Read_no_end_of_stream_counterexample:
  "conn_closed (conns w_closed 0)
   \<and> fst (Read ts_ab [0, 0] w_closed) = Blocked
   \<and> fst (Read ts_ab [0, 0] w_closed) \<noteq> Returned (0, Some io_EOF, [0, 0])
   \<and> fst (Read ts_ab [0, 0] (w_closed\<lparr>byte_chans := (byte_chans w_closed)(3 := [[0x6c, 0x73]])\<rparr>))
        = Returned (2, None, [0x6c, 0x73])"
  by (simp add: closed_world Read_def ts_ab_def copy_bytes_def)

text \<open>
  C7, amended: with a chunk waiting on the inbound channel \<open>Read\<close> copies as many of its
  bytes as fit into the buffer, returns that count with a nil error and consumes the
  chunk; with none waiting it blocks; it never returns an error, end-of-stream
  included; and closing the session changes none of this.
\<close>

theorem Read_copies_chunk_or_blocks:
  "(receiver t = Some ch \<and> byte_chans w ch = m # rest \<longrightarrow>
      fst (Read t p w) = Returned (min (length p) (length m), None,
                                   take (length p) m @ drop (length m) p)
      \<and> byte_chans (snd (Read t p w)) ch = rest)
   \<and> (receiver t = None \<or> (receiver t = Some ch \<and> byte_chans w ch = []) \<longrightarrow>
        Read t p w = (Blocked, w))
   \<and> (\<forall>n err p'. fst (Read t p w) \<noteq> Returned (n, Some err, p'))
   \<and> fst (Read t p (snd (Close t w))) = fst (Read t p w)"
  by (auto simp: Read_def copy_bytes_def Let_def Close_store min_def
      split: option.splits list.splits)

theorem Read_copies_chunk_or_blocks_witness:
  "receiver ts_ab = Some 3
   \<and> byte_chans (w_closed\<lparr>byte_chans := (byte_chans w_closed)(3 := [[0x61, 0x62, 0x63]])\<rparr>) 3
        = [0x61, 0x62, 0x63] # []
   \<and> fst (Read ts_ab [0, 0] (w_closed\<lparr>byte_chans := (byte_chans w_closed)(3 := [[0x61, 0x62, 0x63]])\<rparr>))
        = Returned (2, None, [0x61, 0x62])
   \<and> byte_chans w_closed 3 = []
   \<and> Read ts_ab [0, 0] w_closed = (Blocked, w_closed)"
proof -
  have r: "receiver ts_ab = Some 3" by (simp add: ts_ab_def)
  have c: "byte_chans (w_closed\<lparr>byte_chans := (byte_chans w_closed)(3 := [[0x61, 0x62, 0x63]])\<rparr>) 3
        = [0x61, 0x62, 0x63] # []" by simp
  have e: "byte_chans w_closed 3 = []" by (simp add: closed_world)
  from r c e
    Read_copies_chunk_or_blocks [of ts_ab 3
      "w_closed\<lparr>byte_chans := (byte_chans w_closed)(3 := [[0x61, 0x62, 0x63]])\<rparr>"
      "[0x61, 0x62, 0x63]" "[]" "[0, 0]"]
    Read_copies_chunk_or_blocks [of ts_ab 3 w_closed "[]" "[]" "[0, 0]"]
  show ?thesis by simp
qed

text \<open>
  C9, as stated, fails: after \<open>Close\<close>, \<open>Next\<close> blocks; it does not return nil, the
  collaborator's end-of-events signal.
\<close>

theorem Next_no_end_of_events_counterexample:
  "conn_closed (conns w_closed 0)
   \<and> fst (Next ts_ab w_closed) = Blocked
   \<and> fst (Next ts_ab w_closed) \<noteq> Returned None"
  by (simp add: closed_world Next_def ts_ab_def)

text \<open>
  C9, amended: \<open>Next\<close> returns the resize event when one is waiting on \<open>sizeChan\<close> and
  blocks otherwise; it never returns nil, and closing the session does not unblock it.
\<close>

theorem Next_returns_event_or_blocks:
  "(sizeChan t = Some ch \<and> size_chans w ch = sz # rest \<longrightarrow>
      fst (Next t w) = Returned (Some sz) \<and> size_chans (snd (Next t w)) ch = rest)
   \<and> (sizeChan t = None \<or> (sizeChan t = Some ch \<and> size_chans w ch = []) \<longrightarrow>
        Next t w = (Blocked, w))
   \<and> fst (Next t w) \<noteq> Returned None
   \<and> fst (Next t (snd (Close t w))) = fst (Next t w)"
  by (auto simp: Next_def Close_store split: option.splits list.splits)

theorem Next_returns_event_or_blocks_witness:
  "sizeChan ts_ab = Some 2
   \<and> size_chans (w_closed\<lparr>size_chans := (size_chans w_closed)(2 := [\<lparr>Width = 80, Height = 24\<rparr>])\<rparr>) 2
        = \<lparr>Width = 80, Height = 24\<rparr> # []
   \<and> fst (Next ts_ab (w_closed\<lparr>size_chans := (size_chans w_closed)(2 := [\<lparr>Width = 80, Height = 24\<rparr>])\<rparr>))
        = Returned (Some \<lparr>Width = 80, Height = 24\<rparr>)
   \<and> size_chans w_closed 2 = []
   \<and> Next ts_ab w_closed = (Blocked, w_closed)"
proof -
  have r: "sizeChan ts_ab = Some 2" by (simp add: ts_ab_def)
  have c: "size_chans (w_closed\<lparr>size_chans := (size_chans w_closed)(2 := [\<lparr>Width = 80, Height = 24\<rparr>])\<rparr>) 2
        = \<lparr>Width = 80, Height = 24\<rparr> # []" by simp
  have e: "size_chans w_closed 2 = []" by (simp add: closed_world)
  from r c e
    Next_returns_event_or_blocks [of ts_ab 2
      "w_closed\<lparr>size_chans := (size_chans w_closed)(2 := [\<lparr>Width = 80, Height = 24\<rparr>])\<rparr>"
      "\<lparr>Width = 80, Height = 24\<rparr>" "[]"]
    Next_returns_event_or_blocks [of ts_ab 2 w_closed "\<lparr>Width = 80, Height = 24\<rparr>" "[]"]
  show ?thesis by simp
qed

text \<open>
  C8, as stated, fails in its last clause: on a closed connection \<open>Write\<close> returns its
  error to the collaborator, the collaborator's stream call returns nil all the same,
  and \<open>ExecTerminal\<close> logs a normal end. What the stream call returns is the
  collaborator's own; \<open>execPod\<close> and \<open>ExecTerminal\<close> see nothing else of a \<open>Write\<close>.
\<close>

theorem Write_error_not_propagated_counterexample:
  "conn_closed (conns w_closed 0)
   \<and> fst (Write ts_ab [0x6c, 0x73] w_closed) = Returned (0, Some closed_conn_error)
   \<and> fst (execPod env_exit ''app'' ''web-1'' ''default'' [''bash''] ts_ab
          (snd (Write ts_ab [0x6c, 0x73] w_closed))) = Returned None
   \<and> new_events w_closed (snd (ExecTerminal env_exit ''app'' ''web-1'' ''default'' sid_ab w_closed))
      = [EvGoReader sid_ab, EvExecPod [''bash''], EvStreaming [''bash''],
         EvLog ''terminal was closed'', EvClose (Some 0)]"
proof -
  have l: "lookup_session w_closed sid_ab = ts_ab"
    using created_lookup
    by (simp add: lookup_session_def w_closed_def Close_store)
  have "new_events w_closed (snd (ExecTerminal env_exit ''app'' ''web-1'' ''default'' sid_ab w_closed))
      = [EvGoReader sid_ab, EvExecPod [''bash''], EvStreaming [''bash''],
         EvLog ''terminal was closed'', EvClose (Some 0)]"
    by (simp add: new_events_def ExecTerminal_def shells_def execPod_def env_exit_def Let_def l
        ts_ab_def emit_def run_deferred_Close_def Close_def CloseConn_def closed_world)
  then show ?thesis
    by (simp add: closed_world Write_def WriteMessage_def ts_ab_def execPod_def env_exit_def Let_def)
qed

text \<open>
  C8, amended: on a session with a connection, \<open>Write\<close> sends the bytes as one text
  frame and returns their count when the socket write succeeds; when the socket write
  fails, as it does on a closed connection, it returns 0 and the socket's error to its
  caller and sends nothing; it neither panics nor blocks once the socket write has
  returned; and \<open>execPod\<close> hands to \<open>ExecTerminal\<close> exactly what its stream call returns,
  an error or nil.
\<close>

theorem Write_returns_count_or_socket_error:
  assumes "sockConn t = Some a"
  shows "(fst (WriteMessage (conns w a) TextMessage p) = None \<longrightarrow>
            fst (Write t p w) = Returned (length p, None)
            \<and> frames_out (conns (snd (Write t p w)) a)
                = frames_out (conns w a) @ [(TextMessage, p)])
      \<and> (\<forall>err. fst (WriteMessage (conns w a) TextMessage p) = Some err \<longrightarrow>
            fst (Write t p w) = Returned (0, Some err)
            \<and> frames_out (conns (snd (Write t p w)) a) = frames_out (conns w a))
      \<and> (conn_closed (conns w a) \<longrightarrow>
            fst (WriteMessage (conns w a) TextMessage p) \<noteq> None
            \<and> (\<exists>err. fst (Write t p w) = Returned (0, Some err)))
      \<and> fst (Write t p w) \<noteq> Blocked
      \<and> (\<forall>msg. fst (Write t p w) \<noteq> Panicked msg)
      \<and> (\<forall>r. config_panic (env container pod namespace cmd) = None
              \<and> executor_error (env container pod namespace cmd) = None
              \<and> stream (env container pod namespace cmd) = StreamReturns attached r
            \<longrightarrow> fst (execPod env container pod namespace cmd t w) = Returned r)"
  using assms
  by (auto simp: Write_def WriteMessage_def execPod_def Let_def split: option.splits)

theorem Write_returns_count_or_socket_error_witness:
  "sockConn ts_ab = Some 0
   \<and> conn_closed (conns w_closed 0)
   \<and> fst (WriteMessage (conns w_closed 0) TextMessage [0x6c, 0x73]) = Some closed_conn_error
   \<and> fst (Write ts_ab [0x6c, 0x73] w_closed) = Returned (0, Some closed_conn_error)
   \<and> fst (WriteMessage (conns w_created 0) TextMessage [0x6c, 0x73]) = None
   \<and> fst (Write ts_ab [0x6c, 0x73] w_created) = Returned (2, None)
   \<and> frames_out (conns (snd (Write ts_ab [0x6c, 0x73] w_created)) 0) = [(TextMessage, [0x6c, 0x73])]
   \<and> fst (execPod env_reset ''app'' ''web-1'' ''default'' [''bash''] ts_ab w_closed)
        = Returned (Some closed_conn_error)
   \<and> fst (execPod env_exit ''app'' ''web-1'' ''default'' [''bash''] ts_ab w_closed)
        = Returned None"
proof -
  have s: "sockConn ts_ab = Some 0" by (simp add: ts_ab_def)
  have c: "conn_closed (conns w_closed 0)" by (simp add: closed_world)
  have x: "fst (WriteMessage (conns w_closed 0) TextMessage [0x6c, 0x73]) = Some closed_conn_error"
    by (simp add: closed_world WriteMessage_def)
  have o: "fst (WriteMessage (conns w_created 0) TextMessage [0x6c, 0x73]) = None"
    by (simp add: created_conn conn0_def WriteMessage_def)
  have f: "frames_out (conns w_created 0) = []" by (simp add: created_conn conn0_def)
  have e: "config_panic (env_reset ''app'' ''web-1'' ''default'' [''bash'']) = None
      \<and> executor_error (env_reset ''app'' ''web-1'' ''default'' [''bash'']) = None
      \<and> stream (env_reset ''app'' ''web-1'' ''default'' [''bash''])
          = StreamReturns True (Some closed_conn_error)"
    by (simp add: env_reset_def)
  have e': "config_panic (env_exit ''app'' ''web-1'' ''default'' [''bash'']) = None
      \<and> executor_error (env_exit ''app'' ''web-1'' ''default'' [''bash'']) = None
      \<and> stream (env_exit ''app'' ''web-1'' ''default'' [''bash'']) = StreamReturns True None"
    by (simp add: env_exit_def)
  from s c x o f e e'
    Write_returns_count_or_socket_error [OF s, of w_closed "[0x6c, 0x73]" env_reset "''app''"
      "''web-1''" "''default''" "[''bash'']" True]
    Write_returns_count_or_socket_error [OF s, of w_closed "[0x6c, 0x73]" env_exit "''app''"
      "''web-1''" "''default''" "[''bash'']" True]
    Write_returns_count_or_socket_error [OF s, of w_created "[0x6c, 0x73]" env_reset "''app''"
      "''web-1''" "''default''" "[''bash'']" True]
  show ?thesis by simp
qed

section \<open>The shell fallback of ExecTerminal\<close>

text \<open>
  C4, as stated, fails: \<open>bash\<close> starts, streams, and its stream call ends with an error
  (the shell exited with a non-zero status); \<open>sh\<close> is tried all the same. The loop
  breaks on a nil error of \<open>execPod\<close>, not on a successful start.
\<close>

theorem ExecTerminal_started_shell_not_final_counterexample:
  "starts (env_exit1 ''app'' ''web-1'' ''default'' [''bash''])
   \<and> new_events w_created (snd (ExecTerminal env_exit1 ''app'' ''web-1'' ''default'' sid_ab w_created))
      = [EvGoReader sid_ab, EvExecPod [''bash''], EvStreaming [''bash''],
         EvLog ''ExecTerminal execPod err command terminated with exit code 1'',
         EvExecPod [''sh''], EvStreaming [''sh''],
         EvLog ''terminal was closed'', EvClose (Some 0)]"
  by (simp add: starts_def env_exit1_def new_events_def ExecTerminal_def shells_def execPod_def
      Let_def lookup_session_def created_session emit_def run_deferred_Close_def Close_def
      CloseConn_def created_conn conn0_def)

lemma execPod_fails_to_start:
  "fails_to_start (env c p n cmd) e \<Longrightarrow>
     execPod env c p n cmd t w = (Returned (Some e), emit (EvExecPod cmd) w)"
  by (auto simp: fails_to_start_def execPod_def Let_def)

lemma execPod_streaming_error:
  "streaming_error (env c p n cmd) e \<Longrightarrow>
     execPod env c p n cmd t w = (Returned (Some e), emit (EvStreaming cmd) (emit (EvExecPod cmd) w))"
  by (auto simp: streaming_error_def execPod_def Let_def)

lemma ExecTerminal_trace:
  "events (snd (ExecTerminal env c p n sid w)) =
     events (snd (try_shells env c p n sid shells None (emit (EvGoReader sid) w)))
     @ exit_events (fst (try_shells env c p n sid shells None (emit (EvGoReader sid) w)))
         (sockConn (lookup_session w sid))"
proof -
  obtain r w2 where t: "try_shells env c p n sid shells None (emit (EvGoReader sid) w) = (r, w2)"
    by (cases "try_shells env c p n sid shells None (emit (EvGoReader sid) w)")
  then show ?thesis
    by (simp add: ExecTerminal_def Let_def exit_events_def run_deferred_Close_facts emit_def
        split: outcome.splits option.splits)
qed

lemma execPod_events_eq:
  "events (snd (execPod env c p n cmd t w))
     = events w @ EvExecPod cmd # attach_events (env c p n cmd) cmd"
  by (simp add: execPod_def starts_def attach_events_def emit_def Let_def
      split: option.splits stream_run.splits)

lemma exec_cmds_attach [simp]: "exec_cmds (attach_events k cmd) = []"
  by (simp add: attach_events_def)

lemma exec_cmds_exit [simp]: "exec_cmds (exit_events r conn) = []"
  by (simp add: exit_events_def split: outcome.splits option.splits)

lemma try_shells_Cons_fst:
  "try_shells env c p n sid (s # ss) err w =
     (case fst (execPod env c p n [s] (lookup_session w sid) w) of
        Returned None \<Rightarrow> (Returned None, snd (execPod env c p n [s] (lookup_session w sid) w))
      | Returned (Some e) \<Rightarrow>
          try_shells env c p n sid ss (Some e)
            (emit (EvLog (''ExecTerminal execPod err '' @ e))
               (snd (execPod env c p n [s] (lookup_session w sid) w)))
      | Blocked \<Rightarrow> (Blocked, snd (execPod env c p n [s] (lookup_session w sid) w))
      | Panicked msg \<Rightarrow> (Panicked msg, snd (execPod env c p n [s] (lookup_session w sid) w)))"
  by (simp split: prod.splits outcome.splits option.splits)

lemma ExecTerminal_cmds_first_ok:
  assumes "fst (execPod env c p n [''bash''] t' w') = Returned None"
  shows "exec_cmds (new_events w (snd (ExecTerminal env c p n sid w))) = [[''bash'']]"
proof -
  let ?w1 = "emit (EvGoReader sid) w"
  from assms execPod_fst_env [of env c p n "[''bash'']" "lookup_session ?w1 sid" ?w1 t' w']
  have r: "fst (execPod env c p n [''bash''] (lookup_session ?w1 sid) ?w1) = Returned None"
    by simp
  have "events (snd (ExecTerminal env c p n sid w)) =
      events w @ (EvGoReader sid # EvExecPod [''bash'']
        # attach_events (env c p n [''bash'']) [''bash'']
        @ exit_events (Returned None) (sockConn (lookup_session w sid)))"
    unfolding ExecTerminal_trace shells_def try_shells_Cons_fst r
    by (simp add: execPod_events_eq emit_def)
  then show ?thesis
    by (simp add: new_events_def exec_cmds_append)
qed

lemma ExecTerminal_events_first_err:
  assumes "fst (execPod env c p n [''bash''] t' w') = Returned (Some e)"
  shows "\<exists>l. exec_cmds l = [] \<and>
     new_events w (snd (ExecTerminal env c p n sid w)) =
       [EvGoReader sid, EvExecPod [''bash'']] @ attach_events (env c p n [''bash'']) [''bash'']
       @ [EvLog (''ExecTerminal execPod err '' @ e), EvExecPod [''sh'']] @ l"
proof -
  let ?w1 = "emit (EvGoReader sid) w"
  let ?wa = "snd (execPod env c p n [''bash''] (lookup_session ?w1 sid) ?w1)"
  let ?wb = "emit (EvLog (''ExecTerminal execPod err '' @ e)) ?wa"
  let ?r2 = "fst (execPod env c p n [''sh''] (lookup_session ?wb sid) ?wb)"
  let ?wc = "snd (execPod env c p n [''sh''] (lookup_session ?wb sid) ?wb)"
  from assms execPod_fst_env [of env c p n "[''bash'']" "lookup_session ?w1 sid" ?w1 t' w']
  have r: "fst (execPod env c p n [''bash''] (lookup_session ?w1 sid) ?w1) = Returned (Some e)"
    by simp
  have t: "try_shells env c p n sid shells None ?w1 = try_shells env c p n sid [''sh''] (Some e) ?wb"
    unfolding shells_def try_shells_Cons_fst [of env c p n sid "''bash''"] r by simp
  have evb: "events ?wb = events w @ [EvGoReader sid, EvExecPod [''bash'']]
      @ attach_events (env c p n [''bash'']) [''bash'']
      @ [EvLog (''ExecTerminal execPod err '' @ e)]"
    by (simp add: execPod_events_eq emit_def)
  have evc: "events ?wc = events ?wb @ EvExecPod [''sh''] # attach_events (env c p n [''sh'']) [''sh'']"
    by (rule execPod_events_eq)
  have "\<exists>l. events (snd (try_shells env c p n sid [''sh''] (Some e) ?wb)) = events ?wc @ l
      \<and> exec_cmds l = []"
    unfolding try_shells_Cons_fst [of env c p n sid "''sh''"]
    by (cases ?r2) (auto simp: emit_def split: option.splits)
  then obtain l where l: "events (snd (try_shells env c p n sid [''sh''] (Some e) ?wb)) = events ?wc @ l"
    and le: "exec_cmds l = []" by blast
  let ?x = "exit_events (fst (try_shells env c p n sid shells None ?w1))
      (sockConn (lookup_session w sid))"
  have "events (snd (ExecTerminal env c p n sid w)) =
      events w @ ([EvGoReader sid, EvExecPod [''bash'']]
      @ attach_events (env c p n [''bash'']) [''bash'']
      @ [EvLog (''ExecTerminal execPod err '' @ e), EvExecPod [''sh'']]
      @ (attach_events (env c p n [''sh'']) [''sh''] @ l @ ?x))"
    unfolding ExecTerminal_trace t l evc evb by simp
  then have "new_events w (snd (ExecTerminal env c p n sid w)) =
      [EvGoReader sid, EvExecPod [''bash'']]
      @ attach_events (env c p n [''bash'']) [''bash'']
      @ [EvLog (''ExecTerminal execPod err '' @ e), EvExecPod [''sh'']]
      @ (attach_events (env c p n [''sh'']) [''sh''] @ l @ ?x)"
    by (simp add: new_events_def)
  moreover have "exec_cmds (attach_events (env c p n [''sh'']) [''sh''] @ l @ ?x) = []"
    using le by (simp add: exec_cmds_append)
  ultimately show ?thesis by blast
qed

lemma ExecTerminal_cmds_first_err:
  assumes "fst (execPod env c p n [''bash''] t' w') = Returned (Some e)"
  shows "exec_cmds (new_events w (snd (ExecTerminal env c p n sid w))) = [[''bash''], [''sh'']]"
  using ExecTerminal_events_first_err [OF assms, of w sid]
  by (auto simp: exec_cmds_append)

lemma ExecTerminal_cmds_first_stuck:
  assumes "fst (execPod env c p n [''bash''] t' w') = Blocked
     \<or> fst (execPod env c p n [''bash''] t' w') = Panicked msg"
  shows "exec_cmds (new_events w (snd (ExecTerminal env c p n sid w))) = [[''bash'']]"
proof -
  let ?w1 = "emit (EvGoReader sid) w"
  from assms execPod_fst_env [of env c p n "[''bash'']" "lookup_session ?w1 sid" ?w1 t' w']
  have r: "fst (execPod env c p n [''bash''] (lookup_session ?w1 sid) ?w1) = Blocked
      \<or> fst (execPod env c p n [''bash''] (lookup_session ?w1 sid) ?w1) = Panicked msg"
    by simp
  have "\<exists>x. events (snd (ExecTerminal env c p n sid w)) =
      events w @ (EvGoReader sid # EvExecPod [''bash'']
        # attach_events (env c p n [''bash'']) [''bash''] @ exit_events x (sockConn (lookup_session w sid)))"
    using r unfolding ExecTerminal_trace shells_def try_shells_Cons_fst
    by (auto simp add: execPod_events_eq emit_def)
  then show ?thesis
    by (auto simp add: new_events_def exec_cmds_append)
qed

lemma ExecTerminal_both_fail_to_start:
  assumes "fails_to_start (env c p n [''bash'']) e1"
    and "fails_to_start (env c p n [''sh'']) e2"
  shows "fst (ExecTerminal env c p n sid w) \<noteq> Blocked"
    and "new_events w (snd (ExecTerminal env c p n sid w))
        = [EvGoReader sid,
           EvExecPod [''bash''], EvLog (''ExecTerminal execPod err '' @ e1),
           EvExecPod [''sh''], EvLog (''ExecTerminal execPod err '' @ e2),
           EvLog (''ExecTerminal err '' @ e2),
           EvClose (sockConn (lookup_session w sid))]"
proof -
  have t: "try_shells env c p n sid shells None (emit (EvGoReader sid) w) =
      (Returned (Some e2),
       w\<lparr>events := events w @ [EvGoReader sid,
           EvExecPod [''bash''], EvLog (''ExecTerminal execPod err '' @ e1),
           EvExecPod [''sh''], EvLog (''ExecTerminal execPod err '' @ e2)]\<rparr>)"
    by (simp add: shells_def
        execPod_fails_to_start [where env = env and cmd = "[''bash'']", OF assms(1)]
        execPod_fails_to_start [where env = env and cmd = "[''sh'']", OF assms(2)] emit_def)
  show "fst (ExecTerminal env c p n sid w) \<noteq> Blocked"
    by (simp add: ExecTerminal_blocked_iff t)
  show "new_events w (snd (ExecTerminal env c p n sid w))
        = [EvGoReader sid,
           EvExecPod [''bash''], EvLog (''ExecTerminal execPod err '' @ e1),
           EvExecPod [''sh''], EvLog (''ExecTerminal execPod err '' @ e2),
           EvLog (''ExecTerminal err '' @ e2),
           EvClose (sockConn (lookup_session w sid))]"
    by (simp add: new_events_def ExecTerminal_trace t exit_events_def)
qed

text \<open>
  C4, amended: the candidates are \<open>bash\<close> then \<open>sh\<close>; when the \<open>execPod\<close> call for
  \<open>bash\<close> returns nil, \<open>sh\<close> is not tried; when it returns an error, of whatever kind,
  \<open>sh\<close> is tried; and when both fail to start, the function logs each error, then the
  last one, and closes the session without any streaming.
\<close>

theorem ExecTerminal_shell_fallback:
  "(fst (execPod env container pod namespace [''bash''] t' w') = Returned None \<longrightarrow>
      exec_cmds (new_events w (snd (ExecTerminal env container pod namespace sessionId w)))
        = [[''bash'']])
   \<and> (\<forall>e. fst (execPod env container pod namespace [''bash''] t' w') = Returned (Some e) \<longrightarrow>
      exec_cmds (new_events w (snd (ExecTerminal env container pod namespace sessionId w)))
        = [[''bash''], [''sh'']])
   \<and> (\<forall>e1 e2. fails_to_start (env container pod namespace [''bash'']) e1
           \<and> fails_to_start (env container pod namespace [''sh'']) e2 \<longrightarrow>
      fst (ExecTerminal env container pod namespace sessionId w) \<noteq> Blocked
      \<and> new_events w (snd (ExecTerminal env container pod namespace sessionId w))
        = [EvGoReader sessionId,
           EvExecPod [''bash''], EvLog (''ExecTerminal execPod err '' @ e1),
           EvExecPod [''sh''], EvLog (''ExecTerminal execPod err '' @ e2),
           EvLog (''ExecTerminal err '' @ e2),
           EvClose (sockConn (lookup_session w sessionId))])"
  using ExecTerminal_cmds_first_ok [where env = env and c = container and p = pod
      and n = namespace and t' = t' and w' = w' and w = w and sid = sessionId]
    ExecTerminal_cmds_first_err [where env = env and c = container and p = pod
      and n = namespace and t' = t' and w' = w' and w = w and sid = sessionId]
    ExecTerminal_both_fail_to_start [where env = env and c = container and p = pod
      and n = namespace and w = w and sid = sessionId]
  by blast

theorem ExecTerminal_shell_fallback_witness:
  "fst (execPod env_exit ''app'' ''web-1'' ''default'' [''bash''] ts_ab w_created) = Returned None
   \<and> exec_cmds (new_events w_created
        (snd (ExecTerminal env_exit ''app'' ''web-1'' ''default'' sid_ab w_created))) = [[''bash'']]
   \<and> fst (execPod env_only_sh ''app'' ''web-1'' ''default'' [''bash''] ts_ab w_created)
        = Returned (Some ''executable file not found'')
   \<and> exec_cmds (new_events w_created
        (snd (ExecTerminal env_only_sh ''app'' ''web-1'' ''default'' sid_ab w_created)))
        = [[''bash''], [''sh'']]
   \<and> fails_to_start (env_no_shell ''app'' ''web-1'' ''default'' [''bash'']) ''executable file not found''
   \<and> fails_to_start (env_no_shell ''app'' ''web-1'' ''default'' [''sh'']) ''executable file not found''
   \<and> new_events w_created (snd (ExecTerminal env_no_shell ''app'' ''web-1'' ''default'' sid_ab w_created))
        = [EvGoReader sid_ab,
           EvExecPod [''bash''], EvLog ''ExecTerminal execPod err executable file not found'',
           EvExecPod [''sh''], EvLog ''ExecTerminal execPod err executable file not found'',
           EvLog ''ExecTerminal err executable file not found'',
           EvClose (Some 0)]"
proof -
  have a: "fst (execPod env_exit ''app'' ''web-1'' ''default'' [''bash''] ts_ab w_created) = Returned None"
    by (simp add: execPod_def env_exit_def Let_def)
  have b: "fst (execPod env_only_sh ''app'' ''web-1'' ''default'' [''bash''] ts_ab w_created)
        = Returned (Some ''executable file not found'')"
    by (simp add: execPod_def env_only_sh_def Let_def)
  have c: "fails_to_start (env_no_shell ''app'' ''web-1'' ''default'' [''bash'']) ''executable file not found''"
    "fails_to_start (env_no_shell ''app'' ''web-1'' ''default'' [''sh'']) ''executable file not found''"
    by (simp_all add: fails_to_start_def env_no_shell_def)
  have s: "sockConn (lookup_session w_created sid_ab) = Some 0"
    by (simp add: created_lookup ts_ab_def)
  from a b c s
    ExecTerminal_shell_fallback [of env_exit "''app''" "''web-1''" "''default''" ts_ab w_created
      w_created sid_ab]
    ExecTerminal_shell_fallback [of env_only_sh "''app''" "''web-1''" "''default''" ts_ab w_created
      w_created sid_ab]
    ExecTerminal_shell_fallback [of env_no_shell "''app''" "''web-1''" "''default''" ts_ab w_created
      w_created sid_ab]
  show ?thesis by simp
qed

text \<open>
  C5, as stated, fails: the stream of \<open>bash\<close> ends with an error after streaming has
  begun, and \<open>ExecTerminal\<close> attaches \<open>sh\<close> to the same session and streams again.
\<close>

theorem ExecTerminal_retries_after_stream_error_counterexample:
  "streaming_error (env_reset ''app'' ''web-1'' ''default'' [''bash'']) closed_conn_error
   \<and> new_events w_created (snd (ExecTerminal env_reset ''app'' ''web-1'' ''default'' sid_ab w_created))
      = [EvGoReader sid_ab, EvExecPod [''bash''], EvStreaming [''bash''],
         EvLog (''ExecTerminal execPod err '' @ closed_conn_error),
         EvExecPod [''sh''], EvStreaming [''sh''],
         EvLog (''ExecTerminal execPod err '' @ closed_conn_error),
         EvLog (''ExecTerminal err '' @ closed_conn_error), EvClose (Some 0)]"
  by (simp add: streaming_error_def env_reset_def new_events_def ExecTerminal_def shells_def
      execPod_def Let_def created_lookup ts_ab_def emit_def run_deferred_Close_def Close_def
      CloseConn_def created_conn conn0_def)

lemma ExecTerminal_last_stream_error:
  assumes "fst (execPod env c p n [''bash''] t' w') = Returned (Some e1)"
    and "streaming_error (env c p n [''sh'']) e"
  shows "fst (ExecTerminal env c p n sid w) \<noteq> Blocked"
    and "new_events w (snd (ExecTerminal env c p n sid w)) =
       [EvGoReader sid, EvExecPod [''bash'']] @ attach_events (env c p n [''bash'']) [''bash'']
       @ [EvLog (''ExecTerminal execPod err '' @ e1),
          EvExecPod [''sh''], EvStreaming [''sh''], EvLog (''ExecTerminal execPod err '' @ e),
          EvLog (''ExecTerminal err '' @ e), EvClose (sockConn (lookup_session w sid))]"
proof -
  let ?w1 = "emit (EvGoReader sid) w"
  let ?wa = "snd (execPod env c p n [''bash''] (lookup_session ?w1 sid) ?w1)"
  let ?wb = "emit (EvLog (''ExecTerminal execPod err '' @ e1)) ?wa"
  from assms(1) execPod_fst_env [of env c p n "[''bash'']" "lookup_session ?w1 sid" ?w1 t' w']
  have r: "fst (execPod env c p n [''bash''] (lookup_session ?w1 sid) ?w1) = Returned (Some e1)"
    by simp
  have t: "try_shells env c p n sid shells None ?w1 = try_shells env c p n sid [''sh''] (Some e1) ?wb"
    unfolding shells_def try_shells_Cons_fst [of env c p n sid "''bash''"] r by simp
  have evb: "events ?wb = events w @ [EvGoReader sid, EvExecPod [''bash'']]
      @ attach_events (env c p n [''bash'']) [''bash'']
      @ [EvLog (''ExecTerminal execPod err '' @ e1)]"
    by (simp add: execPod_events_eq emit_def)
  have t2: "try_shells env c p n sid [''sh''] (Some e1) ?wb =
      (Returned (Some e), emit (EvLog (''ExecTerminal execPod err '' @ e))
         (emit (EvStreaming [''sh'']) (emit (EvExecPod [''sh'']) ?wb)))"
    by (simp add: execPod_streaming_error [where env = env and cmd = "[''sh'']", OF assms(2)])
  show "fst (ExecTerminal env c p n sid w) \<noteq> Blocked"
    unfolding ExecTerminal_blocked_iff t t2 by simp
  have "events (snd (ExecTerminal env c p n sid w)) = events w @
       ([EvGoReader sid, EvExecPod [''bash'']] @ attach_events (env c p n [''bash'']) [''bash'']
       @ [EvLog (''ExecTerminal execPod err '' @ e1),
          EvExecPod [''sh''], EvStreaming [''sh''], EvLog (''ExecTerminal execPod err '' @ e),
          EvLog (''ExecTerminal err '' @ e), EvClose (sockConn (lookup_session w sid))])"
    unfolding ExecTerminal_trace t t2 by (simp add: emit_def execPod_events_eq exit_events_def)
  then show "new_events w (snd (ExecTerminal env c p n sid w)) =
       [EvGoReader sid, EvExecPod [''bash'']] @ attach_events (env c p n [''bash'']) [''bash'']
       @ [EvLog (''ExecTerminal execPod err '' @ e1),
          EvExecPod [''sh''], EvStreaming [''sh''], EvLog (''ExecTerminal execPod err '' @ e),
          EvLog (''ExecTerminal err '' @ e), EvClose (sockConn (lookup_session w sid))]"
    by (simp add: new_events_def)
qed

lemma ExecTerminal_first_stream_error:
  assumes "streaming_error (env c p n [''bash'']) e"
  shows "take 5 (new_events w (snd (ExecTerminal env c p n sid w))) =
       [EvGoReader sid, EvExecPod [''bash''], EvStreaming [''bash''],
        EvLog (''ExecTerminal execPod err '' @ e), EvExecPod [''sh'']]"
proof -
  have f: "fst (execPod env c p n [''bash''] t w) = Returned (Some e)" for t w
    by (simp add: execPod_streaming_error [where env = env and cmd = "[''bash'']", OF assms])
  have a: "attach_events (env c p n [''bash'']) [''bash''] = [EvStreaming [''bash'']]"
    using assms by (simp add: attach_events_def starts_def streaming_error_def)
  from ExecTerminal_events_first_err [OF f, of w sid] a show ?thesis
    by auto
qed

lemma ExecTerminal_cmds_bounded:
  "exec_cmds (new_events w (snd (ExecTerminal env c p n sid w))) = [[''bash'']]
   \<or> exec_cmds (new_events w (snd (ExecTerminal env c p n sid w))) = [[''bash''], [''sh'']]"
proof (cases "fst (execPod env c p n [''bash''] zero_session w)")
  case (Returned eo)
  then show ?thesis
    using ExecTerminal_cmds_first_ok [where env = env and c = c and p = p and n = n
        and t' = zero_session and w' = w and w = w and sid = sid]
      ExecTerminal_cmds_first_err [where env = env and c = c and p = p and n = n
        and t' = zero_session and w' = w and w = w and sid = sid]
    by (cases eo) auto
next
  case Blocked
  then show ?thesis
    using ExecTerminal_cmds_first_stuck [where env = env and c = c and p = p and n = n
        and t' = zero_session and w' = w and w = w and sid = sid]
    by simp
next
  case (Panicked m)
  then show ?thesis
    using ExecTerminal_cmds_first_stuck [where env = env and c = c and p = p and n = n
        and t' = zero_session and w' = w and w = w and sid = sid and msg = m]
    by simp
qed

text \<open>
  C5, amended: a streaming error of \<open>sh\<close>, the last candidate, is logged and ends the
  session with its \<open>Close\<close>; a streaming error of \<open>bash\<close> is logged and followed by
  the attempt with \<open>sh\<close>; in every case \<open>execPod\<close> is called once for \<open>bash\<close> and at
  most once for \<open>sh\<close>, and never again.
\<close>

theorem ExecTerminal_stream_error_terminal_for_last_shell:
  "(\<forall>e1 e. fst (execPod env container pod namespace [''bash''] t' w') = Returned (Some e1)
        \<and> streaming_error (env container pod namespace [''sh'']) e \<longrightarrow>
      fst (ExecTerminal env container pod namespace sessionId w) \<noteq> Blocked
      \<and> new_events w (snd (ExecTerminal env container pod namespace sessionId w)) =
          [EvGoReader sessionId, EvExecPod [''bash'']]
          @ attach_events (env container pod namespace [''bash'']) [''bash'']
          @ [EvLog (''ExecTerminal execPod err '' @ e1),
             EvExecPod [''sh''], EvStreaming [''sh''], EvLog (''ExecTerminal execPod err '' @ e),
             EvLog (''ExecTerminal err '' @ e), EvClose (sockConn (lookup_session w sessionId))])
   \<and> (\<forall>e. streaming_error (env container pod namespace [''bash'']) e \<longrightarrow>
      take 5 (new_events w (snd (ExecTerminal env container pod namespace sessionId w))) =
        [EvGoReader sessionId, EvExecPod [''bash''], EvStreaming [''bash''],
         EvLog (''ExecTerminal execPod err '' @ e), EvExecPod [''sh'']])
   \<and> (exec_cmds (new_events w (snd (ExecTerminal env container pod namespace sessionId w)))
         = [[''bash'']]
       \<or> exec_cmds (new_events w (snd (ExecTerminal env container pod namespace sessionId w)))
         = [[''bash''], [''sh'']])"
  using ExecTerminal_last_stream_error [where env = env and c = container and p = pod
      and n = namespace and t' = t' and w' = w' and w = w and sid = sessionId]
    ExecTerminal_first_stream_error [where env = env and c = container and p = pod
      and n = namespace and w = w and sid = sessionId]
    ExecTerminal_cmds_bounded [where env = env and c = container and p = pod
      and n = namespace and w = w and sid = sessionId]
  by blast

theorem ExecTerminal_stream_error_terminal_for_last_shell_witness:
  "fst (execPod env_reset ''app'' ''web-1'' ''default'' [''bash''] ts_ab w_created)
      = Returned (Some closed_conn_error)
   \<and> streaming_error (env_reset ''app'' ''web-1'' ''default'' [''sh'']) closed_conn_error
   \<and> streaming_error (env_reset ''app'' ''web-1'' ''default'' [''bash'']) closed_conn_error
   \<and> fst (ExecTerminal env_reset ''app'' ''web-1'' ''default'' sid_ab w_created) \<noteq> Blocked
   \<and> take 5 (new_events w_created
        (snd (ExecTerminal env_reset ''app'' ''web-1'' ''default'' sid_ab w_created))) =
        [EvGoReader sid_ab, EvExecPod [''bash''], EvStreaming [''bash''],
         EvLog (''ExecTerminal execPod err '' @ closed_conn_error), EvExecPod [''sh'']]
   \<and> drop 5 (new_events w_created
        (snd (ExecTerminal env_reset ''app'' ''web-1'' ''default'' sid_ab w_created))) =
        [EvStreaming [''sh''], EvLog (''ExecTerminal execPod err '' @ closed_conn_error),
         EvLog (''ExecTerminal err '' @ closed_conn_error), EvClose (Some 0)]"
proof -
  have a: "fst (execPod env_reset ''app'' ''web-1'' ''default'' [''bash''] ts_ab w_created)
      = Returned (Some closed_conn_error)"
    by (simp add: execPod_def env_reset_def Let_def)
  have b: "streaming_error (env_reset ''app'' ''web-1'' ''default'' [''sh'']) closed_conn_error"
    "streaming_error (env_reset ''app'' ''web-1'' ''default'' [''bash'']) closed_conn_error"
    by (simp_all add: streaming_error_def env_reset_def)
  have c: "attach_events (env_reset ''app'' ''web-1'' ''default'' [''bash'']) [''bash'']
      = [EvStreaming [''bash'']]"
    by (simp add: attach_events_def starts_def env_reset_def)
  have s: "sockConn (lookup_session w_created sid_ab) = Some 0"
    by (simp add: created_lookup ts_ab_def)
  from a b c s
    ExecTerminal_stream_error_terminal_for_last_shell [where env = env_reset
      and container = "''app''" and pod = "''web-1''" and namespace = "''default''"
      and t' = ts_ab and w' = w_created and w = w_created and sessionId = sid_ab]
  show ?thesis by simp
qed

section \<open>The socket reader loop and Read together\<close>

lemma abc_session:
  "lookup_session w_abc sid_ab = ts_ab" "conns w_abc 0 = conn_abc" "byte_chans w_abc 3 = []"
  by (simp_all add: w_abc_def CreateSession_def gen_ab w0_def Let_def lookup_session_def ts_ab_def)

text \<open>
  C6, evaluated where it fails: the client sends the frames \<open>abc\<close> and \<open>d\<close>, the
  collaborator reads with a buffer of two bytes; the reads return \<open>ab\<close> and \<open>d\<close>, and
  the byte \<open>c\<close> is in no channel and no buffer afterwards.
\<close>

theorem Read_truncates_long_chunk:
  "concat (frames_in (conns w_abc 0)) = [0x61, 0x62, 0x63, 0x64]
   \<and> delivered bridge_abc = [[0x61, 0x62], [0x64]]
   \<and> concat (delivered bridge_abc) \<noteq> concat (frames_in (conns w_abc 0))
   \<and> reader bridge_abc = AtReadMessage
   \<and> byte_chans (state bridge_abc) 3 = []
   \<and> frames_in (conns (state bridge_abc) 0) = []"
  by (simp add: bridge_abc_def run_bridge_def paste_schedule_def bridge_step_def
      readFromWebTerminal_step_def Read_def ReadMessage_def copy_bytes_def
      w_abc_def CreateSession_def gen_ab w0_def Let_def lookup_session_def conn_abc_def)

section \<open>Order of delivery through the bridge\<close>

text \<open>
  Whatever the schedule, the reads of the collaborator receive the frames in the order
  the socket delivered them, one frame for each read; a read with a buffer shorter than
  its frame receives the beginning of the frame only.
\<close>

lemma delivers_take [simp]: "n0 \<le> n \<Longrightarrow> delivers n0 (take (min n (length m)) m) m"
  by (simp add: delivers_def is_prefix_def min_def)

lemma fifo_inv_step:
  assumes "fifo_inv sid t a ch n0 F b" "sockConn t = Some a" "receiver t = Some ch"
    and "\<And>n. act = ReadCall n \<Longrightarrow> n0 \<le> n"
  shows "fifo_inv sid t a ch n0 F (bridge_step sid act b)"
proof (cases act)
  case ReaderStep
  show ?thesis
  proof (cases "reader b")
    case AtReadMessage
    with assms ReaderStep show ?thesis
      by (auto simp: fifo_inv_def bridge_step_def readFromWebTerminal_step_def ReadMessage_def
          inflight_def lookup_session_def emit_def
          split: option.splits list.splits if_splits)
  next
    case (AtSend m)
    with assms ReaderStep show ?thesis
      by (auto simp: fifo_inv_def bridge_step_def readFromWebTerminal_step_def
          inflight_def lookup_session_def)
  next
    case (Parked c)
    with assms ReaderStep show ?thesis
      by (auto simp: fifo_inv_def bridge_step_def readFromWebTerminal_step_def
          inflight_def lookup_session_def)
  next
    case Exited
    with assms ReaderStep show ?thesis
      by (auto simp: fifo_inv_def bridge_step_def readFromWebTerminal_step_def
          inflight_def lookup_session_def)
  qed
next
  case (ReadCall n)
  show ?thesis
  proof (cases "byte_chans (state b) ch")
    case Nil
    with assms ReadCall show ?thesis
      by (simp add: fifo_inv_def bridge_step_def Read_def)
  next
    case (Cons m rest)
    let ?k = "length (delivered b)"
    from assms(1) Cons have d: "drop ?k F = m # rest @ (case reader b of AtSend m \<Rightarrow> [m] | _ \<Rightarrow> [])
        @ frames_in (conns (state b) a)"
      by (simp add: fifo_inv_def inflight_def)
    then have lt: "?k < length F"
      by (metis drop_eq_Nil linorder_not_le list.distinct(1))
    from d lt have tk: "take (Suc ?k) F = take ?k F @ [m]"
      by (metis Cons_nth_drop_Suc list.inject take_Suc_conv_app_nth)
    from d have dk: "drop (Suc ?k) F = rest @ (case reader b of AtSend m \<Rightarrow> [m] | _ \<Rightarrow> [])
        @ frames_in (conns (state b) a)"
      by (metis drop_Suc list.sel(3) tl_drop)
    have st: "bridge_step sid act b =
        b\<lparr>state := (state b)\<lparr>byte_chans := (byte_chans (state b))(ch := rest)\<rparr>,
          delivered := delivered b @ [take (min n (length m)) m]\<rparr>"
      using assms ReadCall Cons
      by (simp add: bridge_step_def Read_def copy_bytes_def fifo_inv_def Let_def)
    from assms(1) lt tk dk assms(4) [OF ReadCall] show ?thesis
      unfolding st
      by (simp add: fifo_inv_def inflight_def lookup_session_def list_all2_appendI)
  qed
qed

lemma fifo_inv_run:
  assumes "fifo_inv sid t a ch n0 F b" "sockConn t = Some a" "receiver t = Some ch"
    and "\<forall>n. ReadCall n \<in> set acts \<longrightarrow> n0 \<le> n"
  shows "fifo_inv sid t a ch n0 F (run_bridge sid acts b)"
  using assms(1,4)
proof (induction acts arbitrary: b)
  case Nil
  then show ?case by (simp add: run_bridge_def)
next
  case (Cons act acts)
  have "fifo_inv sid t a ch n0 F (bridge_step sid act b)"
    using Cons.prems by (intro fifo_inv_step [OF _ assms(2,3)]) auto
  with Cons.IH [of "bridge_step sid act b"] Cons.prems(2)
  show ?case by (simp add: run_bridge_def)
qed

lemma Read_calls_deliver_in_order:
  assumes "lookup_session w sid = t" "sockConn t = Some a" "receiver t = Some ch"
    and "byte_chans w ch = []"
    and "\<forall>n. ReadCall n \<in> set acts \<longrightarrow> n0 \<le> n"
  shows "list_all2 (delivers n0)
           (delivered (run_bridge sid acts \<lparr>reader = AtReadMessage, state = w, delivered = []\<rparr>))
           (take (length (delivered (run_bridge sid acts
                    \<lparr>reader = AtReadMessage, state = w, delivered = []\<rparr>)))
              (frames_in (conns w a)))"
proof -
  have "fifo_inv sid t a ch n0 (frames_in (conns w a))
      \<lparr>reader = AtReadMessage, state = w, delivered = []\<rparr>"
    using assms by (simp add: fifo_inv_def inflight_def)
  from fifo_inv_run [OF this assms(2,3,5)] show ?thesis
    by (simp add: fifo_inv_def)
qed

lemma Read_calls_deliver_in_order_example:
  "list_all2 (delivers 2) (delivered bridge_abc)
     (take (length (delivered bridge_abc)) (frames_in (conns w_abc 0)))"
proof -
  have "\<forall>n. ReadCall n \<in> set paste_schedule \<longrightarrow> 2 \<le> n"
    by (simp add: paste_schedule_def)
  from Read_calls_deliver_in_order [OF abc_session(1) _ _ abc_session(3) this]
  show ?thesis by (simp add: bridge_abc_def ts_ab_def)
qed

end
